theory Spec2Isabelle
  imports Main "HOL-Library.Word" "HOL-Library.AList" "HOL-Library.Sublist"
begin

unbundle bit_operations_syntax

section \<open>Managed secrets (jewels)\<close>

subsection \<open>Errors, payloads, backends\<close>

text \<open>
  A Go \<^verbatim>\<open>error\<close> is a value. The source builds one kind itself,
  \<^verbatim>\<open>starlark.NoSuchAttrError(msg)\<close>; every other error comes from a collaborator
  (backend, vault, cluster client, script hook) and is passed through untouched.
\<close>

datatype error = NoSuchAttrError string | GoError string

text \<open>
  \<^verbatim>\<open>[]byte\<close>: a byte string, or the nil slice (\<open>None\<close>). A Go string is a byte
  sequence as well, so \<^verbatim>\<open>string(data)\<close> keeps the bytes as they are.
  \<^verbatim>\<open>map[string][]byte\<close> is a finite map; reading a key that is absent yields the
  nil slice. A nil map reads like the empty map and is identified with it.
\<close>

type_synonym bytes = "string option"
type_synonym payload = "string \<rightharpoonup> bytes"

definition index :: "payload \<Rightarrow> string \<Rightarrow> bytes" where
  "index d k = (case d k of None \<Rightarrow> None | Some b \<Rightarrow> b)"

text \<open>
  Calls made on a backend are recorded in a log, in the order they happen. What a
  backend returns may depend on everything it was asked before (a generator of random
  passwords is not a function of its argument), so \<^verbatim>\<open>Apply\<close>, \<^verbatim>\<open>Template\<close> and
  \<^verbatim>\<open>Delete\<close> take the log so far. \<^verbatim>\<open>Name()\<close> and \<^verbatim>\<open>Keys()\<close> are
  plain accessors; calling them is logged too.
\<close>

datatype bcall = CallName | CallKeys | CallApply payload | CallTemplate | CallDelete

text \<open>The two extra methods of \<^verbatim>\<open>ComplexJewelBackend\<close>.\<close>

record complexOps =
  Template :: "bcall list \<Rightarrow> error + payload"
  Delete :: "bcall list \<Rightarrow> error option"

text \<open>
  \<^verbatim>\<open>JewelBackend\<close>. \<open>asComplex\<close> is the outcome of the type assertion
  \<^verbatim>\<open>c.backend.(ComplexJewelBackend)\<close>: \<open>None\<close> when it fails. \<open>Keys\<close> lists the
  entries of the \<^verbatim>\<open>map[string]string\<close> in the order a \<^verbatim>\<open>range\<close> visits them.
\<close>

record backend =
  backendName :: string
  Keys :: "(string \<times> string) list"
  Apply :: "bcall list \<Rightarrow> payload \<Rightarrow> error + payload"
  asComplex :: "complexOps option"

text \<open>\<^verbatim>\<open>Vault\<close>: the storage of secrets in the cluster.\<close>

record Vault =
  Write :: "string \<Rightarrow> payload \<Rightarrow> error option"
  Read :: "string \<Rightarrow> error + payload"
  IsNotExist :: "error \<Rightarrow> bool"

subsection \<open>The jewel and its state machine\<close>

definition stateInit :: int where "stateInit = 0"
definition stateLoaded :: int where "stateLoaded = 1"
definition stateReady :: int where "stateReady = 2"

record jewel =
  backend :: backend
  state :: int
  name :: string
  data :: payload

definition NewJewel :: "backend \<Rightarrow> string \<Rightarrow> jewel" where
  "NewJewel b n = \<lparr>backend = b, state = stateInit, name = n, data = Map.empty\<rparr>"

text \<open>\<^verbatim>\<open>jewel.delete\<close>: external cleanup, for a complex backend only.\<close>

definition jewel_delete :: "jewel \<Rightarrow> bcall list \<Rightarrow> error option \<times> bcall list" where
  "jewel_delete c lg =
     (case asComplex (backend c) of
        Some cx \<Rightarrow> (Delete cx lg, lg @ [CallDelete])
      | None \<Rightarrow> (None, lg))"

text \<open>\<^verbatim>\<open>jewel.read\<close>: returns the error (\<open>None\<close> is nil) and the jewel afterwards.\<close>

definition read :: "jewel \<Rightarrow> Vault \<Rightarrow> error option \<times> jewel" where
  "read c v =
     (case Read v (name c) of
        Inl err \<Rightarrow> (if \<not> IsNotExist v err then (Some err, c) else (None, c))
      | Inr d \<Rightarrow> (None, c\<lparr>data := d, state := stateLoaded\<rparr>))"

text \<open>\<^verbatim>\<open>jewel.write\<close>.\<close>

definition jewel_write :: "jewel \<Rightarrow> Vault \<Rightarrow> error option" where
  "jewel_write c v = Write v (name c) (data c)"

text \<open>
  \<^verbatim>\<open>jewel.ensure\<close>. The \<^verbatim>\<open>switch\<close> has no default: for a state other than the
  three constants the local \<^verbatim>\<open>data\<close> is still nil when it is stored, and the state
  becomes ready.
\<close>

definition ensure :: "jewel \<Rightarrow> bcall list \<Rightarrow> error option \<times> jewel \<times> bcall list" where
  "ensure c lg =
     (if state c = stateLoaded then
        (case Apply (backend c) lg (data c) of
           Inl err \<Rightarrow> (Some err, c, lg @ [CallApply (data c)])
         | Inr d \<Rightarrow> (None, c\<lparr>data := d, state := stateReady\<rparr>, lg @ [CallApply (data c)]))
      else if state c = stateInit then
        (case asComplex (backend c) of
           Some cx \<Rightarrow>
             (case Template cx lg of
                Inl err \<Rightarrow> (Some err, c, lg @ [CallTemplate])
              | Inr d \<Rightarrow> (None, c\<lparr>data := d, state := stateReady\<rparr>, lg @ [CallTemplate]))
         | None \<Rightarrow>
             (case Apply (backend c) lg Map.empty of
                Inl err \<Rightarrow> (Some err, c, lg @ [CallApply Map.empty])
              | Inr d \<Rightarrow> (None, c\<lparr>data := d, state := stateReady\<rparr>, lg @ [CallApply Map.empty])))
      else if state c = stateReady then (None, c, lg)
      else (None, c\<lparr>data := Map.empty, state := stateReady\<rparr>, lg))"

text \<open>\<^verbatim>\<open>dataValue\<close>: the nil slice decodes to the empty string.\<close>

definition dataValue :: "bytes \<Rightarrow> string" where
  "dataValue d = (case d of Some s \<Rightarrow> s | None \<Rightarrow> [])"

text \<open>
  \<^verbatim>\<open>jewel.templateValues\<close>: the error of \<^verbatim>\<open>ensure\<close> is dropped; the loop over
  \<^verbatim>\<open>Keys()\<close> fills the result map from the data \<open>d\<close> held after \<^verbatim>\<open>ensure\<close>.
\<close>

fun templateValues_loop :: "(string \<times> string) list \<Rightarrow> payload \<Rightarrow> (string \<rightharpoonup> string) \<Rightarrow> (string \<rightharpoonup> string)" where
  "templateValues_loop [] d result = result"
| "templateValues_loop ((k, v) # rest) d result =
     templateValues_loop rest d (result(k \<mapsto> dataValue (index d v)))"

definition templateValues :: "jewel \<Rightarrow> bcall list \<Rightarrow> (string \<rightharpoonup> string) \<times> jewel \<times> bcall list" where
  "templateValues c lg =
     (case ensure c lg of
        (_, c', lg') \<Rightarrow>
          (templateValues_loop (Keys (backend c')) (data c') Map.empty, c', lg' @ [CallKeys]))"

text \<open>
  \<^verbatim>\<open>jewel.Attr\<close>. The value returned is a \<^verbatim>\<open>starlark.String\<close>, given here by its
  text; with an error the source returns \<^verbatim>\<open>starlark.None\<close> beside it, which the sum
  leaves out.
\<close>

definition jewel_Attr :: "jewel \<Rightarrow> string \<Rightarrow> bcall list \<Rightarrow> (error + string) \<times> jewel \<times> bcall list" where
  "jewel_Attr c nm lg =
     (if nm = ''name'' then (Inr (name c), c, lg)
      else
        (case map_of (Keys (backend c)) nm of
           None \<Rightarrow>
             (Inl (NoSuchAttrError (backendName (backend c) @ '' has no .'' @ nm @ '' attribute'')),
              c, lg @ [CallKeys, CallName])
         | Some key \<Rightarrow>
             (case ensure c (lg @ [CallKeys]) of
                (Some err, c', lg') \<Rightarrow> (Inl err, c', lg')
              | (None, c', lg') \<Rightarrow> (Inr (dataValue (index (data c') key)), c', lg'))))"

section \<open>Charts\<close>

subsection \<open>Values of the scripting language\<close>

text \<open>
  \<^verbatim>\<open>chartClass\<close> is declared outside the source at hand; the source reads its
  fields \<^verbatim>\<open>Name\<close> and \<^verbatim>\<open>Version\<close>.
\<close>

record chartClass =
  Name :: string
  Version :: string

text \<open>A \<^verbatim>\<open>starlark.Callable\<close> is opaque: a script function or a builtin, known by name.\<close>

datatype callable = Callable string

text \<open>
  Modelled from the spec: the type \<^verbatim>\<open>vault\<close> that \<^verbatim>\<open>eachVault\<close> selects, with
  its methods \<^verbatim>\<open>read(k)\<close> and \<^verbatim>\<open>delete()\<close>, is not part of the source at hand.
  The spec calls it a managed secret owned directly by the chart, which reads its
  pre-existing cluster state and releases its backing store. It is kept opaque here:
  an identifier, with the outcome of both methods supplied by the environment.
\<close>

datatype vault = ManagedSecret string

text \<open>
  A \<^verbatim>\<open>starlark.Value\<close> is an interface. The source tells charts and vaults apart by
  type assertion and defines jewels; strings, the class handle and callables are what
  \<^verbatim>\<open>Attr\<close> hands out; \<open>VNone\<close>, \<open>VInt\<close> and \<open>VList\<close> stand for values of the
  interpreter's own types.

  A chart is the struct \<^verbatim>\<open>chartImpl\<close> without the fields \<^verbatim>\<open>Version\<close> and
  \<^verbatim>\<open>initFunc\<close>, which none of the functions below reads. \<open>chart_values\<close> lists
  the entries of the Go map \<^verbatim>\<open>values\<close> in the order a \<^verbatim>\<open>range\<close> statement yields
  them (a key occurs once); Go leaves that order open, so a permutation of the list is
  another possible run over the same map. In \<open>methods\<close> the inner \<open>None\<close> is a nil
  callable stored under a key.
\<close>

datatype val =
    VNone
  | VString string
  | VInt int
  | VList "val list"
  | VClass chartClass
  | VCallable callable
  | VJewel jewel
  | VVault vault
  | VChart chart
and chart =
    Chart (clazz: chartClass) (chart_values: "(string \<times> val) list")
          (methods: "string \<rightharpoonup> callable option") (dir: string) (namespace: string)
          (chart_suffix: string)

text \<open>
  What the interpreter supplies: the hash of a string (\<^verbatim>\<open>starlark.String(k).Hash()\<close>,
  which cannot fail), the \<^verbatim>\<open>Hash()\<close> method of the values whose types are defined
  outside the source, and the two helpers \<^verbatim>\<open>wrapDict\<close> and \<^verbatim>\<open>unwrapDict\<close>.
\<close>

datatype hres = HashOk "32 word" | HashErr error | HashPanic string

record starlark =
  stringHash :: "string \<Rightarrow> 32 word"
  foreignHash :: "val \<Rightarrow> hres"
  wrapDict :: "val \<Rightarrow> val"
  unwrapDict :: "val \<Rightarrow> val"

subsection \<open>The chart as a value\<close>

definition GetName :: "chart \<Rightarrow> string" where
  "GetName c =
     (if chart_suffix c = [] then Name (clazz c)
      else Name (clazz c) @ ''-'' @ chart_suffix c)"

text \<open>
  \<^verbatim>\<open>chartImpl.Hash\<close>. \<open>hashEntries\<close> is the loop, with the accumulators \<open>x\<close> and
  \<open>m\<close>; in Go \<^verbatim>\<open>*\<close> binds tighter than \<^verbatim>\<open>^\<close>. \<open>valueHash\<close> is the
  dynamic dispatch of \<^verbatim>\<open>e.Hash()\<close>: \<^verbatim>\<open>jewel.Hash\<close> panics.
\<close>

fun hashEntries :: "starlark \<Rightarrow> (string \<times> val) list \<Rightarrow> 32 word \<Rightarrow> 32 word \<Rightarrow> hres"
  and valueHash :: "starlark \<Rightarrow> val \<Rightarrow> hres" where
  "hashEntries S [] x m = HashOk x"
| "hashEntries S ((k, e) # rest) x m =
     (case valueHash S e of
        HashOk y \<Rightarrow> hashEntries S rest ((x XOR 3 * stringHash S k) XOR y * m) (m + 7349)
      | HashErr err \<Rightarrow> HashErr err
      | HashPanic msg \<Rightarrow> HashPanic msg)"
| "valueHash S (VChart (Chart cl vs ms d ns sf)) = hashEntries S vs 8731 9839"
| "valueHash S (VJewel j) = HashPanic ''implement me''"
| "valueHash S (VString s) = HashOk (stringHash S s)"
| "valueHash S VNone = foreignHash S VNone"
| "valueHash S (VInt i) = foreignHash S (VInt i)"
| "valueHash S (VList l) = foreignHash S (VList l)"
| "valueHash S (VClass cl) = foreignHash S (VClass cl)"
| "valueHash S (VCallable f) = foreignHash S (VCallable f)"
| "valueHash S (VVault v) = foreignHash S (VVault v)"

definition Hash :: "starlark \<Rightarrow> chart \<Rightarrow> hres" where
  "Hash S c = hashEntries S (chart_values c) 8731 9839"

text \<open>\<^verbatim>\<open>chartImpl.Attr\<close>.\<close>

definition Attr :: "starlark \<Rightarrow> chart \<Rightarrow> string \<Rightarrow> error + val" where
  "Attr S c nm =
     (if nm = ''namespace'' then Inr (VString (namespace c))
      else if nm = ''name'' then Inr (VString (GetName c))
      else if nm = ''__class__'' then Inr (VClass (clazz c))
      else
        (case map_of (chart_values c) nm of
           None \<Rightarrow>
             (case methods c nm of
                Some (Some m) \<Rightarrow> Inr (VCallable m)
              | _ \<Rightarrow> Inl (NoSuchAttrError (''chart has no .'' @ nm @ '' attribute'')))
         | Some v \<Rightarrow> Inr (wrapDict S v)))"

text \<open>
  \<^verbatim>\<open>chartImpl.SetField\<close>: the assignment \<^verbatim>\<open>c.values[name] = ...\<close> replaces the
  entry of an existing key and adds one for a new key. The result is the error returned
  and the chart afterwards.
\<close>

definition SetField :: "starlark \<Rightarrow> chart \<Rightarrow> string \<Rightarrow> val \<Rightarrow> error option \<times> chart" where
  "SetField S c nm v =
     (None, Chart (clazz c) (AList.update nm (unwrapDict S v) (chart_values c))
                  (methods c) (dir c) (namespace c) (chart_suffix c))"

subsection \<open>Apply and delete\<close>

text \<open>
  The cluster client \<^verbatim>\<open>K8sValue\<close> is a handle. \<^verbatim>\<open>K8sOptions\<close> is declared outside
  the source; the source writes its field \<^verbatim>\<open>Namespaced\<close>, and \<^verbatim>\<open>&K8sOptions{}\<close> has
  it false. The stream that \<^verbatim>\<open>c.template\<close> renders and the object stream that
  \<^verbatim>\<open>decode\<close> makes of it are opaque.
\<close>

datatype k8s = K8sValue string

record K8sOptions =
  Namespaced :: bool

datatype stream = Stream string

datatype objectStream = ObjectStream stream

text \<open>
  Every call that leaves the chart is an event of the trace: a script hook called
  through \<^verbatim>\<open>starlark.Call\<close> with the client as its one argument (the callable is
  \<open>None\<close> when the method table has no such hook), a vault asked to read or to delete,
  the chart's templates rendered, and manifests handed to the client's \<^verbatim>\<open>Apply\<close> or
  \<^verbatim>\<open>Delete\<close>.
\<close>

datatype event =
    EvCall "callable option" k8s
  | EvVaultRead vault k8s
  | EvVaultDelete vault
  | EvTemplate chart string bool
  | EvK8sApply k8s objectStream K8sOptions
  | EvK8sDelete k8s objectStream K8sOptions

text \<open>
  The environment answers each call, given the trace so far (hooks, vaults and the
  cluster have state of their own). \<^verbatim>\<open>template\<close> and \<^verbatim>\<open>decode\<close> are functions of
  this repository outside the source at hand; they return no error.
\<close>

record env =
  starlarkCall :: "event list \<Rightarrow> callable option \<Rightarrow> k8s \<Rightarrow> error option"
  vaultRead :: "event list \<Rightarrow> vault \<Rightarrow> k8s \<Rightarrow> error option"
  vaultDelete :: "event list \<Rightarrow> vault \<Rightarrow> error option"
  template :: "event list \<Rightarrow> chart \<Rightarrow> string \<Rightarrow> bool \<Rightarrow> stream"
  decode :: "stream \<Rightarrow> objectStream"
  k8sApply :: "event list \<Rightarrow> k8s \<Rightarrow> objectStream \<Rightarrow> K8sOptions \<Rightarrow> error option"
  k8sDelete :: "event list \<Rightarrow> k8s \<Rightarrow> objectStream \<Rightarrow> K8sOptions \<Rightarrow> error option"

type_synonym 'a action = "event list \<Rightarrow> 'a \<times> event list"

text \<open>\<^verbatim>\<open>subChart.methods[name]\<close>: nil when the key is absent.\<close>

definition hook :: "chart \<Rightarrow> string \<Rightarrow> callable option" where
  "hook c nm = (case methods c nm of None \<Rightarrow> None | Some f \<Rightarrow> f)"

definition callHook :: "env \<Rightarrow> string \<Rightarrow> k8s \<Rightarrow> chart \<Rightarrow> error option action" where
  "callHook E nm k subChart tr =
     (starlarkCall E tr (hook subChart nm) k, tr @ [EvCall (hook subChart nm) k])"

definition vault_read :: "env \<Rightarrow> k8s \<Rightarrow> vault \<Rightarrow> error option action" where
  "vault_read E k v tr = (vaultRead E tr v k, tr @ [EvVaultRead v k])"

definition vault_delete :: "env \<Rightarrow> vault \<Rightarrow> error option action" where
  "vault_delete E v tr = (vaultDelete E tr v, tr @ [EvVaultDelete v])"

text \<open>\<^verbatim>\<open>eachSubChart\<close> and \<^verbatim>\<open>eachVault\<close>: the loops over the entries of \<^verbatim>\<open>values\<close>.\<close>

fun eachSubChart_loop :: "(string \<times> val) list \<Rightarrow> (chart \<Rightarrow> error option action) \<Rightarrow> error option action" where
  "eachSubChart_loop [] block tr = (None, tr)"
| "eachSubChart_loop ((k, v) # rest) block tr =
     (case v of
        VChart subChart \<Rightarrow>
          (case block subChart tr of
             (Some err, tr') \<Rightarrow> (Some err, tr')
           | (None, tr') \<Rightarrow> eachSubChart_loop rest block tr')
      | _ \<Rightarrow> eachSubChart_loop rest block tr)"

definition eachSubChart :: "chart \<Rightarrow> (chart \<Rightarrow> error option action) \<Rightarrow> error option action" where
  "eachSubChart c block = eachSubChart_loop (chart_values c) block"

fun eachVault_loop :: "(string \<times> val) list \<Rightarrow> (vault \<Rightarrow> error option action) \<Rightarrow> error option action" where
  "eachVault_loop [] block tr = (None, tr)"
| "eachVault_loop ((k, val) # rest) block tr =
     (case val of
        VVault v \<Rightarrow>
          (case block v tr of
             (Some err, tr') \<Rightarrow> (Some err, tr')
           | (None, tr') \<Rightarrow> eachVault_loop rest block tr')
      | _ \<Rightarrow> eachVault_loop rest block tr)"

definition eachVault :: "chart \<Rightarrow> (vault \<Rightarrow> error option action) \<Rightarrow> error option action" where
  "eachVault c block = eachVault_loop (chart_values c) block"

text \<open>\<^verbatim>\<open>chartImpl.applyLocal\<close>.\<close>

definition applyLocal :: "env \<Rightarrow> chart \<Rightarrow> k8s \<Rightarrow> K8sOptions \<Rightarrow> string \<Rightarrow> error option action" where
  "applyLocal E c k k8sOptions glob tr =
     (case eachVault c (vault_read E k) tr of
        (Some err, tr1) \<Rightarrow> (Some err, tr1)
      | (None, tr1) \<Rightarrow>
          (let opts = k8sOptions\<lparr>Namespaced := False\<rparr>;
               rendered = template E tr1 c glob True;
               tr2 = tr1 @ [EvTemplate c glob True];
               objs = decode E rendered
           in (k8sApply E tr2 k objs opts, tr2 @ [EvK8sApply k objs opts])))"

text \<open>\<^verbatim>\<open>chartImpl.apply\<close>, the body of the builtin hook \<^verbatim>\<open>apply\<close>.\<close>

definition apply_chart :: "env \<Rightarrow> chart \<Rightarrow> k8s \<Rightarrow> error option action" where
  "apply_chart E c k tr =
     (case eachSubChart c (callHook E ''apply'' k) tr of
        (Some err, tr1) \<Rightarrow> (Some err, tr1)
      | (None, tr1) \<Rightarrow> applyLocal E c k \<lparr>Namespaced = False\<rparr> [] tr1)"

text \<open>\<^verbatim>\<open>chartImpl.deleteLocal\<close>.\<close>

definition deleteLocal :: "env \<Rightarrow> chart \<Rightarrow> k8s \<Rightarrow> K8sOptions \<Rightarrow> string \<Rightarrow> error option action" where
  "deleteLocal E c k k8sOptions glob tr =
     (let opts = k8sOptions\<lparr>Namespaced := False\<rparr>;
          rendered = template E tr c glob False;
          tr1 = tr @ [EvTemplate c glob False];
          objs = decode E rendered
      in (case k8sDelete E tr1 k objs opts of
            Some err \<Rightarrow> (Some err, tr1 @ [EvK8sDelete k objs opts])
          | None \<Rightarrow> eachVault c (vault_delete E) (tr1 @ [EvK8sDelete k objs opts])))"

text \<open>\<^verbatim>\<open>chartImpl.delete\<close>, the body of the builtin hook \<^verbatim>\<open>delete\<close>.\<close>

definition delete_chart :: "env \<Rightarrow> chart \<Rightarrow> k8s \<Rightarrow> error option action" where
  "delete_chart E c k tr =
     (case eachSubChart c (callHook E ''delete'' k) tr of
        (Some err, tr1) \<Rightarrow> (Some err, tr1)
      | (None, tr1) \<Rightarrow> deleteLocal E c k \<lparr>Namespaced = False\<rparr> [] tr1)"

subsection \<open>The order of calls, as the specification words it\<close>

text \<open>The sub-charts and the vaults of a chart, in the order the loops meet them.\<close>

fun subChartsOf :: "(string \<times> val) list \<Rightarrow> chart list" where
  "subChartsOf [] = []"
| "subChartsOf ((k, VChart s) # rest) = s # subChartsOf rest"
| "subChartsOf ((k, v) # rest) = subChartsOf rest"

fun vaultsOf :: "(string \<times> val) list \<Rightarrow> vault list" where
  "vaultsOf [] = []"
| "vaultsOf ((k, VVault v) # rest) = v # vaultsOf rest"
| "vaultsOf ((k, v) # rest) = vaultsOf rest"

definition subCharts :: "chart \<Rightarrow> chart list" where
  "subCharts c = subChartsOf (chart_values c)"

definition vaults :: "chart \<Rightarrow> vault list" where
  "vaults c = vaultsOf (chart_values c)"

text \<open>What the environment answers to an event after the trace \<open>tr\<close>; rendering cannot fail.\<close>

fun outcome :: "env \<Rightarrow> event list \<Rightarrow> event \<Rightarrow> error option" where
  "outcome E tr (EvCall f k) = starlarkCall E tr f k"
| "outcome E tr (EvVaultRead v k) = vaultRead E tr v k"
| "outcome E tr (EvVaultDelete v) = vaultDelete E tr v"
| "outcome E tr (EvTemplate c glob b) = None"
| "outcome E tr (EvK8sApply k objs opts) = k8sApply E tr k objs opts"
| "outcome E tr (EvK8sDelete k objs opts) = k8sDelete E tr k objs opts"

text \<open>Every event of \<open>evs\<close>, happening in this order after \<open>tr\<close>, succeeds.\<close>

fun allOk :: "env \<Rightarrow> event list \<Rightarrow> event list \<Rightarrow> bool" where
  "allOk E tr [] = True"
| "allOk E tr (e # es) = (outcome E tr e = None \<and> allOk E (tr @ [e]) es)"

text \<open>
  Carrying out a planned list of calls one after the other, stopping at the first that
  fails: the error (if any) and the calls made.
\<close>

fun failfast :: "env \<Rightarrow> event list \<Rightarrow> event list \<Rightarrow> error option \<times> event list" where
  "failfast E tr [] = (None, [])"
| "failfast E tr (e # es) =
     (case outcome E tr e of
        Some err \<Rightarrow> (Some err, [e])
      | None \<Rightarrow> (case failfast E (tr @ [e]) es of (r, evs) \<Rightarrow> (r, e # evs)))"

text \<open>
  The specification's local apply: every vault of the chart reads, then the templates
  are rendered, then the decoded manifests are submitted with \<open>Namespaced\<close> false.
\<close>

definition applyLocal_plan :: "env \<Rightarrow> chart \<Rightarrow> k8s \<Rightarrow> K8sOptions \<Rightarrow> string \<Rightarrow> event list \<Rightarrow> event list" where
  "applyLocal_plan E c k k8sOptions glob tr =
     map (\<lambda>v. EvVaultRead v k) (vaults c) @
     [EvTemplate c glob True,
      EvK8sApply k (decode E (template E (tr @ map (\<lambda>v. EvVaultRead v k) (vaults c)) c glob True))
                 (k8sOptions\<lparr>Namespaced := False\<rparr>)]"

text \<open>The specification's apply: the apply hook of every sub-chart, then the local apply.\<close>

definition hookCalls :: "string \<Rightarrow> chart \<Rightarrow> k8s \<Rightarrow> event list" where
  "hookCalls nm c k = map (\<lambda>s. EvCall (hook s nm) k) (subCharts c)"

definition apply_plan :: "env \<Rightarrow> chart \<Rightarrow> k8s \<Rightarrow> event list \<Rightarrow> event list" where
  "apply_plan E c k tr =
     hookCalls ''apply'' c k @
     applyLocal_plan E c k \<lparr>Namespaced = False\<rparr> [] (tr @ hookCalls ''apply'' c k)"

text \<open>
  Local delete: the templates are rendered with delete-time semantics, the removal is
  submitted with \<open>Namespaced\<close> false, then every vault of the chart deletes.
\<close>

definition deleteLocal_plan :: "env \<Rightarrow> chart \<Rightarrow> k8s \<Rightarrow> K8sOptions \<Rightarrow> string \<Rightarrow> event list \<Rightarrow> event list" where
  "deleteLocal_plan E c k k8sOptions glob tr =
     [EvTemplate c glob False,
      EvK8sDelete k (decode E (template E tr c glob False)) (k8sOptions\<lparr>Namespaced := False\<rparr>)] @
     map EvVaultDelete (vaults c)"

text \<open>The order the source follows on delete: sub-chart hooks, then the local delete.\<close>

definition delete_plan :: "env \<Rightarrow> chart \<Rightarrow> k8s \<Rightarrow> event list \<Rightarrow> event list" where
  "delete_plan E c k tr =
     hookCalls ''delete'' c k @
     deleteLocal_plan E c k \<lparr>Namespaced = False\<rparr> [] (tr @ hookCalls ''delete'' c k)"

text \<open>
  \<open>occursBefore a b tr\<close>: the event \<open>a\<close> occurs in \<open>tr\<close>, and \<open>b\<close> does not occur
  ahead of the first \<open>a\<close>.
\<close>

fun occursBefore :: "event \<Rightarrow> event \<Rightarrow> event list \<Rightarrow> bool" where
  "occursBefore a b [] = False"
| "occursBefore a b (e # es) =
     (if e = a then True else if e = b then False else occursBefore a b es)"

section \<open>Sample inputs\<close>

text \<open>
  An interpreter to run the definitions on: a string hash in the style of FNV, integers
  hashed by their value, lists unhashable, and dictionary wrapping that does nothing.
\<close>

definition sampleStringHash :: "string \<Rightarrow> 32 word" where
  "sampleStringHash s = fold (\<lambda>ch h. (h XOR of_char ch) * 16777619) s 0"

fun sampleForeignHash :: "val \<Rightarrow> hres" where
  "sampleForeignHash (VInt i) = HashOk (word_of_int i)"
| "sampleForeignHash (VList l) = HashErr (GoError ''unhashable type: list'')"
| "sampleForeignHash v = HashOk 0"

definition sampleStarlark :: starlark where
  "sampleStarlark =
     \<lparr>stringHash = sampleStringHash, foreignHash = sampleForeignHash,
      wrapDict = (\<lambda>v. v), unwrapDict = (\<lambda>v. v)\<rparr>"

text \<open>A simple backend that fills in a missing password, and one that is out of order.\<close>

definition passwordBackend :: backend where
  "passwordBackend =
     \<lparr>backendName = ''password'', Keys = [(''password'', ''pwd'')],
      Apply = (\<lambda>lg d. Inr (if d ''pwd'' = None then d(''pwd'' \<mapsto> Some ''s3cret'') else d)),
      asComplex = None\<rparr>"

definition brokenBackend :: backend where
  "brokenBackend =
     \<lparr>backendName = ''password'', Keys = [(''password'', ''pwd'')],
      Apply = (\<lambda>lg d. Inl (GoError ''backend unavailable'')),
      asComplex = None\<rparr>"

definition certificateBackend :: backend where
  "certificateBackend =
     \<lparr>backendName = ''certificate'', Keys = [(''cert'', ''tls.crt'')],
      Apply = (\<lambda>lg d. Inr d),
      asComplex = Some \<lparr>Template = (\<lambda>lg. Inr [''tls.crt'' \<mapsto> Some ''PEM'']),
                        Delete = (\<lambda>lg. None)\<rparr>\<rparr>"

text \<open>A jewel whose secret was found in the cluster, and one that has been made ready.\<close>

definition loadedJewel :: jewel where
  "loadedJewel =
     (NewJewel passwordBackend ''db'')\<lparr>data := [''pwd'' \<mapsto> Some ''old''], state := stateLoaded\<rparr>"

definition readyJewel :: jewel where
  "readyJewel =
     (NewJewel passwordBackend ''db'')\<lparr>data := [''pwd'' \<mapsto> Some ''s3cret''], state := stateReady\<rparr>"

text \<open>A vault holding one secret, \<open>db\<close>; asking for another name is a not-found error.\<close>

definition sampleVault :: Vault where
  "sampleVault =
     \<lparr>Write = (\<lambda>n d. None),
      Read = (\<lambda>n. if n = ''db'' then Inr [''pwd'' \<mapsto> Some ''old'']
                   else if n = ''locked'' then Inl (GoError ''forbidden'')
                   else Inl (GoError ''not found'')),
      IsNotExist = (\<lambda>err. err = GoError ''not found'')\<rparr>"

text \<open>A chart with one sub-chart and one vault, and a cluster where every call succeeds.\<close>

definition subChart :: chart where
  "subChart =
     Chart \<lparr>Name = ''redis'', Version = ''1.0.0''\<rparr> []
           [''apply'' \<mapsto> Some (Callable ''redis.apply''),
            ''delete'' \<mapsto> Some (Callable ''redis.delete'')]
           ''charts/redis'' ''default'' []"

definition parentChart :: chart where
  "parentChart =
     Chart \<lparr>Name = ''shop'', Version = ''2.1.0''\<rparr>
           [(''replicas'', VInt 3), (''cache'', VChart subChart),
            (''secret'', VVault (ManagedSecret ''db''))]
           [''apply'' \<mapsto> Some (Callable ''shop.apply'')]
           ''charts/shop'' ''prod'' ''blue''"

definition cluster :: k8s where
  "cluster = K8sValue ''kind''"

definition calmEnv :: env where
  "calmEnv =
     \<lparr>starlarkCall = (\<lambda>tr f k. None), vaultRead = (\<lambda>tr v k. None),
      vaultDelete = (\<lambda>tr v. None), template = (\<lambda>tr c glob b. Stream ''manifests''),
      decode = ObjectStream, k8sApply = (\<lambda>tr k objs opts. None),
      k8sDelete = (\<lambda>tr k objs opts. None)\<rparr>"

text \<open>The same cluster, except that it refuses every submission.\<close>

definition stormyEnv :: env where
  "stormyEnv =
     calmEnv\<lparr>k8sApply := (\<lambda>tr k objs opts. Some (GoError ''refused'')),
             k8sDelete := (\<lambda>tr k objs opts. Some (GoError ''refused''))\<rparr>"

text \<open>A cluster where every script hook fails.\<close>

definition failingHookEnv :: env where
  "failingHookEnv = calmEnv\<lparr>starlarkCall := (\<lambda>tr f k. Some (GoError ''hook failed''))\<rparr>"

text \<open>One chart seen in two iteration orders of the same two entries.\<close>

definition chartAB :: chart where
  "chartAB =
     Chart \<lparr>Name = ''demo'', Version = ''0.1.0''\<rparr> [(''a'', VInt 1), (''b'', VInt 2)]
           Map.empty ''charts/demo'' ''default'' []"

definition chartBA :: chart where
  "chartBA =
     Chart \<lparr>Name = ''demo'', Version = ''0.1.0''\<rparr> [(''b'', VInt 2), (''a'', VInt 1)]
           Map.empty ''charts/demo'' ''default'' []"

text \<open>\<open>occursIn p s\<close>: the text \<open>p\<close> occurs in \<open>s\<close> as a contiguous piece.\<close>

fun occursIn :: "string \<Rightarrow> string \<Rightarrow> bool" where
  "occursIn p [] = (p = [])"
| "occursIn p (ch # s) = (prefix p (ch # s) \<or> occursIn p s)"

text \<open>A chart whose values mapping has entries under the three reserved names.\<close>

definition shadowChart :: chart where
  "shadowChart =
     Chart \<lparr>Name = ''shop'', Version = ''2.1.0''\<rparr>
           [(''name'', VString ''other''), (''namespace'', VString ''elsewhere''),
            (''__class__'', VInt 0)]
           Map.empty ''charts/shop'' ''prod'' ''blue''"

section \<open>Properties of the jewel\<close>

subsection \<open>Reading from the vault\<close>

text \<open>
  Claim C4. For a jewel in state \<open>stateInit\<close>, a \<^verbatim>\<open>read\<close> whose \<^verbatim>\<open>vault.Read\<close>
  fails with an error that the vault's \<^verbatim>\<open>IsNotExist\<close> classifies as not found
  returns no error and leaves the jewel as it is, state \<open>stateInit\<close> included. Any other
  failure of \<^verbatim>\<open>vault.Read\<close> is returned as it came, the jewel (state and data)
  untouched. A successful \<^verbatim>\<open>vault.Read\<close> replaces the data by the stored payload and
  sets the state to \<open>stateLoaded\<close>.
\<close>

theorem read_outcomes:
  "(state c = stateInit \<and> Read v (name c) = Inl err \<and> IsNotExist v err \<longrightarrow>
      read c v = (None, c) \<and> state (snd (read c v)) = stateInit)
   \<and> (Read v (name c) = Inl err \<and> \<not> IsNotExist v err \<longrightarrow> read c v = (Some err, c))
   \<and> (Read v (name c) = Inr d \<longrightarrow>
        read c v = (None, c\<lparr>data := d, state := stateLoaded\<rparr>)
        \<and> data (snd (read c v)) = d \<and> state (snd (read c v)) = stateLoaded)"
  by (simp add: read_def)

theorem read_outcomes_witness:
  "read (NewJewel passwordBackend ''fresh'') sampleVault = (None, NewJewel passwordBackend ''fresh'')
   \<and> state (snd (read (NewJewel passwordBackend ''fresh'') sampleVault)) = stateInit
   \<and> read (NewJewel passwordBackend ''locked'') sampleVault
       = (Some (GoError ''forbidden''), NewJewel passwordBackend ''locked'')
   \<and> data (snd (read (NewJewel passwordBackend ''db'') sampleVault)) = [''pwd'' \<mapsto> Some ''old'']
   \<and> state (snd (read (NewJewel passwordBackend ''db'') sampleVault)) = stateLoaded"
  using read_outcomes [of "NewJewel passwordBackend ''fresh''" sampleVault "GoError ''not found''"]
        read_outcomes [of "NewJewel passwordBackend ''locked''" sampleVault "GoError ''forbidden''"]
        read_outcomes [of "NewJewel passwordBackend ''db''" sampleVault _ "[''pwd'' \<mapsto> Some ''old'']"]
  by (simp add: NewJewel_def sampleVault_def)

subsection \<open>The lazy transition to ready\<close>

lemma ensure_error_unchanged:
  "ensure c lg = (Some err, c', lg') \<Longrightarrow> c' = c"
  by (auto simp: ensure_def split: if_splits sum.splits option.splits)

lemma ensure_success_ready:
  "ensure c lg = (None, c', lg') \<Longrightarrow> state c' = stateReady"
  by (auto simp: ensure_def split: if_splits sum.splits option.splits)

lemma ensure_ready_noop:
  "state c = stateReady \<Longrightarrow> ensure c lg = (None, c, lg)"
  by (simp add: ensure_def stateReady_def stateLoaded_def stateInit_def)

lemma ensure_keeps_backend:
  "ensure c lg = (r, c', lg') \<Longrightarrow> backend c' = backend c \<and> name c' = name c"
  by (auto simp: ensure_def split: if_splits sum.splits option.splits)

lemma jewel_Attr_again:
  assumes "nm \<noteq> ''name''" and "jewel_Attr c nm lg = (Inr s, c1, lg1)"
  shows "jewel_Attr c1 nm lg2 = (Inr s, c1, lg2 @ [CallKeys])" and "ensure c1 lg2 = (None, c1, lg2)"
proof -
  from assms obtain key where key: "map_of (Keys (backend c)) nm = Some key"
    by (auto simp: jewel_Attr_def split: option.splits)
  from assms key have run: "ensure c (lg @ [CallKeys]) = (None, c1, lg1)"
    and s: "s = dataValue (index (data c1) key)"
    by (auto simp: jewel_Attr_def split: option.splits prod.splits)
  from run have ready: "state c1 = stateReady" by (rule ensure_success_ready)
  from run have same: "backend c1 = backend c" by (simp add: ensure_keeps_backend)
  show "ensure c1 lg2 = (None, c1, lg2)" using ready by (rule ensure_ready_noop)
  then show "jewel_Attr c1 nm lg2 = (Inr s, c1, lg2 @ [CallKeys])"
    using assms(1) key same s ready by (simp add: jewel_Attr_def ensure_ready_noop)
qed

text \<open>
  Claim C3. \<^verbatim>\<open>ensure\<close> dispatches on the state. Ready: nothing happens, no backend
  call is logged. Loaded: the backend's \<^verbatim>\<open>Apply\<close> is called with the data held.
  Init: a complex backend's \<^verbatim>\<open>Template\<close> is called, which takes no data; for any
  other backend \<^verbatim>\<open>Apply\<close> is called with the empty payload. When the call succeeds
  its result becomes the data and the state becomes ready; when it fails the jewel is
  unchanged. Hence, once the access to a declared field has returned a payload, the
  next access to that field returns the same payload and leaves the jewel unchanged,
  calling only the accessor \<^verbatim>\<open>Keys\<close>, and a further \<^verbatim>\<open>ensure\<close> calls nothing.
\<close>

theorem ensure_dispatch:
  "(state c = stateReady \<longrightarrow> ensure c lg = (None, c, lg))
   \<and> (state c = stateLoaded \<longrightarrow>
        ensure c lg =
          (case Apply (backend c) lg (data c) of
             Inl err \<Rightarrow> (Some err, c, lg @ [CallApply (data c)])
           | Inr d \<Rightarrow> (None, c\<lparr>data := d, state := stateReady\<rparr>, lg @ [CallApply (data c)])))
   \<and> (state c = stateInit \<and> asComplex (backend c) = Some cx \<longrightarrow>
        ensure c lg =
          (case Template cx lg of
             Inl err \<Rightarrow> (Some err, c, lg @ [CallTemplate])
           | Inr d \<Rightarrow> (None, c\<lparr>data := d, state := stateReady\<rparr>, lg @ [CallTemplate])))
   \<and> (state c = stateInit \<and> asComplex (backend c) = None \<longrightarrow>
        ensure c lg =
          (case Apply (backend c) lg Map.empty of
             Inl err \<Rightarrow> (Some err, c, lg @ [CallApply Map.empty])
           | Inr d \<Rightarrow> (None, c\<lparr>data := d, state := stateReady\<rparr>, lg @ [CallApply Map.empty])))
   \<and> (ensure c lg = (Some err, c', lg') \<longrightarrow> c' = c)
   \<and> (ensure c lg = (None, c', lg') \<longrightarrow> state c' = stateReady)
   \<and> (nm \<noteq> ''name'' \<and> jewel_Attr c nm lg = (Inr s, c1, lg1) \<longrightarrow>
        jewel_Attr c1 nm lg2 = (Inr s, c1, lg2 @ [CallKeys]) \<and> ensure c1 lg3 = (None, c1, lg3))"
proof (intro conjI impI)
  show "ensure c lg = (None, c, lg)" if "state c = stateReady"
    using that by (rule ensure_ready_noop)
  show "ensure c lg =
          (case Apply (backend c) lg (data c) of
             Inl err \<Rightarrow> (Some err, c, lg @ [CallApply (data c)])
           | Inr d \<Rightarrow> (None, c\<lparr>data := d, state := stateReady\<rparr>, lg @ [CallApply (data c)]))"
    if "state c = stateLoaded"
    using that by (simp add: ensure_def)
  show "ensure c lg =
          (case Template cx lg of
             Inl err \<Rightarrow> (Some err, c, lg @ [CallTemplate])
           | Inr d \<Rightarrow> (None, c\<lparr>data := d, state := stateReady\<rparr>, lg @ [CallTemplate]))"
    if "state c = stateInit \<and> asComplex (backend c) = Some cx"
    using that by (simp add: ensure_def stateInit_def stateLoaded_def)
  show "ensure c lg =
          (case Apply (backend c) lg Map.empty of
             Inl err \<Rightarrow> (Some err, c, lg @ [CallApply Map.empty])
           | Inr d \<Rightarrow> (None, c\<lparr>data := d, state := stateReady\<rparr>, lg @ [CallApply Map.empty]))"
    if "state c = stateInit \<and> asComplex (backend c) = None"
    using that by (simp add: ensure_def stateInit_def stateLoaded_def)
  show "c' = c" if "ensure c lg = (Some err, c', lg')"
    using that by (rule ensure_error_unchanged)
  show "state c' = stateReady" if "ensure c lg = (None, c', lg')"
    using that by (rule ensure_success_ready)
  show "jewel_Attr c1 nm lg2 = (Inr s, c1, lg2 @ [CallKeys])"
    if "nm \<noteq> ''name'' \<and> jewel_Attr c nm lg = (Inr s, c1, lg1)"
    using that jewel_Attr_again(1) by blast
  show "ensure c1 lg3 = (None, c1, lg3)"
    if "nm \<noteq> ''name'' \<and> jewel_Attr c nm lg = (Inr s, c1, lg1)"
    using that jewel_Attr_again(2) by blast
qed

theorem ensure_dispatch_witness:
  "ensure readyJewel [] = (None, readyJewel, [])
   \<and> ensure loadedJewel [] = (None, loadedJewel\<lparr>state := stateReady\<rparr>, [CallApply (data loadedJewel)])
   \<and> ensure (NewJewel certificateBackend ''tls'') []
       = (None, (NewJewel certificateBackend ''tls'')\<lparr>data := [''tls.crt'' \<mapsto> Some ''PEM''], state := stateReady\<rparr>,
          [CallTemplate])
   \<and> ensure (NewJewel passwordBackend ''db'') [] = (None, readyJewel, [CallApply Map.empty])
   \<and> ensure (NewJewel brokenBackend ''db'') []
       = (Some (GoError ''backend unavailable''), NewJewel brokenBackend ''db'', [CallApply Map.empty])
   \<and> jewel_Attr loadedJewel ''password'' []
       = (Inr ''old'', loadedJewel\<lparr>state := stateReady\<rparr>, [CallKeys, CallApply (data loadedJewel)])
   \<and> jewel_Attr (loadedJewel\<lparr>state := stateReady\<rparr>) ''password'' [CallKeys, CallApply (data loadedJewel)]
       = (Inr ''old'', loadedJewel\<lparr>state := stateReady\<rparr>, [CallKeys, CallApply (data loadedJewel), CallKeys])
   \<and> ensure (loadedJewel\<lparr>state := stateReady\<rparr>) [CallKeys, CallApply (data loadedJewel), CallKeys]
       = (None, loadedJewel\<lparr>state := stateReady\<rparr>, [CallKeys, CallApply (data loadedJewel), CallKeys])
   \<and> fst (snd (ensure (NewJewel brokenBackend ''db'') [])) = NewJewel brokenBackend ''db''
   \<and> state (fst (snd (ensure loadedJewel []))) = stateReady"
proof -
  note defs = readyJewel_def loadedJewel_def NewJewel_def passwordBackend_def brokenBackend_def
    certificateBackend_def stateReady_def stateLoaded_def stateInit_def
  have ready: "ensure readyJewel [] = (None, readyJewel, [])"
    using ensure_dispatch [where c = readyJewel and lg = "[]", THEN conjunct1]
    by (simp add: defs)
  have loaded: "ensure loadedJewel []
      = (None, loadedJewel\<lparr>state := stateReady\<rparr>, [CallApply (data loadedJewel)])"
    using ensure_dispatch [where c = loadedJewel and lg = "[]", THEN conjunct2, THEN conjunct1]
    by (simp add: defs)
  have complex: "ensure (NewJewel certificateBackend ''tls'') []
      = (None, (NewJewel certificateBackend ''tls'')\<lparr>data := [''tls.crt'' \<mapsto> Some ''PEM''], state := stateReady\<rparr>,
         [CallTemplate])"
    using ensure_dispatch [where c = "NewJewel certificateBackend ''tls''" and lg = "[]"
        and cx = "\<lparr>Template = (\<lambda>lg. Inr [''tls.crt'' \<mapsto> Some ''PEM'']), Delete = (\<lambda>lg. None)\<rparr>",
        THEN conjunct2, THEN conjunct2, THEN conjunct1]
    by (simp add: defs)
  have simple: "ensure (NewJewel passwordBackend ''db'') [] = (None, readyJewel, [CallApply Map.empty])"
    using ensure_dispatch [where c = "NewJewel passwordBackend ''db''" and lg = "[]",
        THEN conjunct2, THEN conjunct2, THEN conjunct2, THEN conjunct1]
    by (simp add: defs)
  have broken: "ensure (NewJewel brokenBackend ''db'') []
      = (Some (GoError ''backend unavailable''), NewJewel brokenBackend ''db'', [CallApply Map.empty])"
    using ensure_dispatch [where c = "NewJewel brokenBackend ''db''" and lg = "[]",
        THEN conjunct2, THEN conjunct2, THEN conjunct2, THEN conjunct1]
    by (simp add: defs)
  have first: "jewel_Attr loadedJewel ''password'' []
      = (Inr ''old'', loadedJewel\<lparr>state := stateReady\<rparr>, [CallKeys, CallApply (data loadedJewel)])"
    by (simp add: jewel_Attr_def ensure_def defs dataValue_def index_def)
  have again: "jewel_Attr (loadedJewel\<lparr>state := stateReady\<rparr>) ''password'' [CallKeys, CallApply (data loadedJewel)]
       = (Inr ''old'', loadedJewel\<lparr>state := stateReady\<rparr>, [CallKeys, CallApply (data loadedJewel), CallKeys])
     \<and> ensure (loadedJewel\<lparr>state := stateReady\<rparr>) [CallKeys, CallApply (data loadedJewel), CallKeys]
       = (None, loadedJewel\<lparr>state := stateReady\<rparr>, [CallKeys, CallApply (data loadedJewel), CallKeys])"
    using first
      ensure_dispatch [where c = loadedJewel and lg = "[]" and nm = "''password''" and s = "''old''"
        and ?c1.0 = "loadedJewel\<lparr>state := stateReady\<rparr>"
        and ?lg1.0 = "[CallKeys, CallApply (data loadedJewel)]"
        and ?lg2.0 = "[CallKeys, CallApply (data loadedJewel)]"
        and ?lg3.0 = "[CallKeys, CallApply (data loadedJewel), CallKeys]",
        THEN conjunct2, THEN conjunct2, THEN conjunct2, THEN conjunct2, THEN conjunct2, THEN conjunct2]
    by simp
  have unchanged: "fst (snd (ensure (NewJewel brokenBackend ''db'') [])) = NewJewel brokenBackend ''db''"
    using broken
      ensure_dispatch [where c = "NewJewel brokenBackend ''db''" and lg = "[]"
        and err = "GoError ''backend unavailable''" and c' = "NewJewel brokenBackend ''db''"
        and lg' = "[CallApply Map.empty]",
        THEN conjunct2, THEN conjunct2, THEN conjunct2, THEN conjunct2, THEN conjunct1]
    by simp
  have becomes_ready: "state (fst (snd (ensure loadedJewel []))) = stateReady"
    using loaded
      ensure_dispatch [where c = loadedJewel and lg = "[]"
        and c' = "loadedJewel\<lparr>state := stateReady\<rparr>" and lg' = "[CallApply (data loadedJewel)]",
        THEN conjunct2, THEN conjunct2, THEN conjunct2, THEN conjunct2, THEN conjunct2, THEN conjunct1]
    by simp
  show ?thesis
    using ready loaded complex simple broken first again unchanged becomes_ready
    by (intro conjI) simp_all
qed

subsection \<open>Field access\<close>

text \<open>
  Claim C6. \<^verbatim>\<open>Attr("name")\<close> returns the jewel's name and calls nothing on the
  backend. For any other name that the backend's key mapping does not declare,
  \<^verbatim>\<open>Attr\<close> fails with a \<^verbatim>\<open>NoSuchAttrError\<close> whose message starts with the backend's name
  and names the attribute; the jewel is not touched. For a declared name \<^verbatim>\<open>ensure\<close>
  runs first: its error is returned as it came, otherwise the payload under the
  declared key is returned as text, an absent payload as the empty string.
\<close>

theorem jewel_Attr_cases:
  "jewel_Attr c ''name'' lg = (Inr (name c), c, lg)
   \<and> (nm \<noteq> ''name'' \<and> map_of (Keys (backend c)) nm = None \<longrightarrow>
        jewel_Attr c nm lg =
          (Inl (NoSuchAttrError (backendName (backend c) @ '' has no .'' @ nm @ '' attribute'')),
           c, lg @ [CallKeys, CallName]))
   \<and> (nm \<noteq> ''name'' \<and> map_of (Keys (backend c)) nm = Some key
        \<and> ensure c (lg @ [CallKeys]) = (Some err, c', lg') \<longrightarrow>
        jewel_Attr c nm lg = (Inl err, c', lg'))
   \<and> (nm \<noteq> ''name'' \<and> map_of (Keys (backend c)) nm = Some key
        \<and> ensure c (lg @ [CallKeys]) = (None, c', lg') \<longrightarrow>
        jewel_Attr c nm lg = (Inr (dataValue (index (data c') key)), c', lg')
        \<and> (index (data c') key = None \<longrightarrow> jewel_Attr c nm lg = (Inr [], c', lg')))"
  by (simp add: jewel_Attr_def dataValue_def)

theorem jewel_Attr_cases_witness:
  "jewel_Attr loadedJewel ''name'' [] = (Inr ''db'', loadedJewel, [])
   \<and> jewel_Attr loadedJewel ''user'' []
       = (Inl (NoSuchAttrError ''password has no .user attribute''), loadedJewel, [CallKeys, CallName])
   \<and> jewel_Attr (NewJewel brokenBackend ''db'') ''password'' []
       = (Inl (GoError ''backend unavailable''), NewJewel brokenBackend ''db'', [CallKeys, CallApply Map.empty])
   \<and> jewel_Attr loadedJewel ''password'' []
       = (Inr ''old'', loadedJewel\<lparr>state := stateReady\<rparr>, [CallKeys, CallApply (data loadedJewel)])
   \<and> jewel_Attr (NewJewel certificateBackend ''tls''\<lparr>state := stateReady\<rparr>) ''cert'' []
       = (Inr [], NewJewel certificateBackend ''tls''\<lparr>state := stateReady\<rparr>, [CallKeys])"
proof -
  note defs = loadedJewel_def NewJewel_def passwordBackend_def brokenBackend_def
    certificateBackend_def stateReady_def stateLoaded_def stateInit_def
  have by_name: "jewel_Attr loadedJewel ''name'' [] = (Inr ''db'', loadedJewel, [])"
    using jewel_Attr_cases [where c = loadedJewel and lg = "[]", THEN conjunct1]
    by (simp add: defs)
  have unknown: "jewel_Attr loadedJewel ''user'' []
      = (Inl (NoSuchAttrError ''password has no .user attribute''), loadedJewel, [CallKeys, CallName])"
    using jewel_Attr_cases [where c = loadedJewel and lg = "[]" and nm = "''user''",
        THEN conjunct2, THEN conjunct1]
    by (simp add: defs)
  have run_broken: "ensure (NewJewel brokenBackend ''db'') [CallKeys]
      = (Some (GoError ''backend unavailable''), NewJewel brokenBackend ''db'', [CallKeys, CallApply Map.empty])"
    by (simp add: ensure_def defs)
  have failing: "jewel_Attr (NewJewel brokenBackend ''db'') ''password'' []
      = (Inl (GoError ''backend unavailable''), NewJewel brokenBackend ''db'', [CallKeys, CallApply Map.empty])"
    using run_broken
      jewel_Attr_cases [where c = "NewJewel brokenBackend ''db''" and lg = "[]" and nm = "''password''"
        and key = "''pwd''" and err = "GoError ''backend unavailable''"
        and c' = "NewJewel brokenBackend ''db''" and lg' = "[CallKeys, CallApply Map.empty]",
        THEN conjunct2, THEN conjunct2, THEN conjunct1]
    by (simp add: defs)
  have run_loaded: "ensure loadedJewel [CallKeys]
      = (None, loadedJewel\<lparr>state := stateReady\<rparr>, [CallKeys, CallApply (data loadedJewel)])"
    by (simp add: ensure_def defs)
  have declared: "jewel_Attr loadedJewel ''password'' []
      = (Inr ''old'', loadedJewel\<lparr>state := stateReady\<rparr>, [CallKeys, CallApply (data loadedJewel)])"
    using run_loaded
      jewel_Attr_cases [where c = loadedJewel and lg = "[]" and nm = "''password''" and key = "''pwd''"
        and c' = "loadedJewel\<lparr>state := stateReady\<rparr>"
        and lg' = "[CallKeys, CallApply (data loadedJewel)]",
        THEN conjunct2, THEN conjunct2, THEN conjunct2]
    by (simp add: defs dataValue_def index_def)
  have run_empty: "ensure (NewJewel certificateBackend ''tls''\<lparr>state := stateReady\<rparr>) [CallKeys]
      = (None, NewJewel certificateBackend ''tls''\<lparr>state := stateReady\<rparr>, [CallKeys])"
    by (simp add: ensure_def defs)
  have absent: "jewel_Attr (NewJewel certificateBackend ''tls''\<lparr>state := stateReady\<rparr>) ''cert'' []
      = (Inr [], NewJewel certificateBackend ''tls''\<lparr>state := stateReady\<rparr>, [CallKeys])"
    using run_empty
      jewel_Attr_cases [where c = "NewJewel certificateBackend ''tls''\<lparr>state := stateReady\<rparr>"
        and lg = "[]" and nm = "''cert''" and key = "''tls.crt''"
        and c' = "NewJewel certificateBackend ''tls''\<lparr>state := stateReady\<rparr>"
        and lg' = "[CallKeys]",
        THEN conjunct2, THEN conjunct2, THEN conjunct2]
    by (simp add: defs dataValue_def index_def)
  show ?thesis
    using by_name unknown failing declared absent by (intro conjI) simp_all
qed

subsection \<open>All fields at once\<close>

lemma templateValues_loop_other:
  "k \<notin> fst ` set ks \<Longrightarrow> templateValues_loop ks d m k = m k"
  by (induction ks arbitrary: m) auto

lemma templateValues_loop_entry:
  "distinct (map fst ks) \<Longrightarrow> (k, v) \<in> set ks \<Longrightarrow>
   templateValues_loop ks d m k = Some (dataValue (index d v))"
proof (induction ks arbitrary: m)
  case Nil
  then show ?case by simp
next
  case (Cons e ks)
  obtain k' v' where e: "e = (k', v')" by (cases e)
  show ?case
  proof (cases "(k, v) \<in> set ks")
    case True
    with Cons.prems have "templateValues_loop ks d (m(k' \<mapsto> dataValue (index d v'))) k
        = Some (dataValue (index d v))"
      by (intro Cons.IH) simp_all
    then show ?thesis by (simp add: e)
  next
    case False
    with Cons.prems have same: "k' = k" "v' = v" and fresh: "k \<notin> fst ` set ks"
      by (force simp: e)+
    show ?thesis by (simp add: e same templateValues_loop_other [OF fresh])
  qed
qed

lemma templateValues_loop_dom:
  "dom (templateValues_loop ks d m) = dom m \<union> fst ` set ks"
proof (induction ks arbitrary: m)
  case Nil
  show ?case by simp
next
  case (Cons e ks)
  obtain k v where e: "e = (k, v)" by (cases e)
  have "dom (templateValues_loop (e # ks) d m) = dom (m(k \<mapsto> dataValue (index d v))) \<union> fst ` set ks"
    unfolding e templateValues_loop.simps by (rule Cons.IH)
  also have "\<dots> = dom m \<union> fst ` set (e # ks)"
    by (auto simp: e)
  finally show ?case .
qed

text \<open>
  Claim C10. \<^verbatim>\<open>templateValues\<close> returns a map and no error: whatever \<^verbatim>\<open>ensure\<close>
  answers, the result has exactly the declared field names as its keys. When
  \<^verbatim>\<open>ensure\<close> fails the jewel is the one before the call, so the map is built from
  the payload held at that moment. With the declared names distinct (they are the keys
  of a Go map), every declared name is mapped to the text of the payload under its key,
  and to the empty string when that payload is absent.
\<close>

theorem templateValues_total:
  assumes "templateValues c lg = (result, c', lg')"
  shows "dom result = fst ` set (Keys (backend c))
         \<and> (fst (ensure c lg) \<noteq> None \<longrightarrow> c' = c)
         \<and> (distinct (map fst (Keys (backend c))) \<longrightarrow>
              (\<forall>(k, v) \<in> set (Keys (backend c)).
                 result k = Some (dataValue (index (data c') v))
                 \<and> (index (data c') v = None \<longrightarrow> result k = Some [])))"
proof -
  obtain r lg1 where run: "ensure c lg = (r, c', lg1)"
    and result: "result = templateValues_loop (Keys (backend c')) (data c') Map.empty"
    using assms by (auto simp: templateValues_def split: prod.splits)
  from run have same: "backend c' = backend c" by (simp add: ensure_keeps_backend)
  have "dom result = fst ` set (Keys (backend c))"
    by (simp add: result same templateValues_loop_dom)
  moreover have "c' = c" if "fst (ensure c lg) \<noteq> None"
    using that run ensure_error_unchanged by fastforce
  moreover have "result k = Some (dataValue (index (data c') v))
                 \<and> (index (data c') v = None \<longrightarrow> result k = Some [])"
    if "distinct (map fst (Keys (backend c)))" and "(k, v) \<in> set (Keys (backend c))" for k v
    using that by (simp add: result same templateValues_loop_entry dataValue_def)
  ultimately show ?thesis by blast
qed

theorem templateValues_total_witness:
  "templateValues (NewJewel brokenBackend ''db'') []
     = ([''password'' \<mapsto> []], NewJewel brokenBackend ''db'', [CallApply Map.empty, CallKeys])
   \<and> dom [''password'' \<mapsto> []] = {''password''}
   \<and> fst (ensure (NewJewel brokenBackend ''db'') []) \<noteq> None
   \<and> dataValue (index (data (NewJewel brokenBackend ''db'')) ''pwd'') = []
   \<and> templateValues loadedJewel []
     = ([''password'' \<mapsto> ''old''], loadedJewel\<lparr>state := stateReady\<rparr>, [CallApply (data loadedJewel), CallKeys])"
proof -
  note defs = loadedJewel_def NewJewel_def passwordBackend_def brokenBackend_def
    stateReady_def stateLoaded_def stateInit_def
  have broken: "templateValues (NewJewel brokenBackend ''db'') []
     = ([''password'' \<mapsto> []], NewJewel brokenBackend ''db'', [CallApply Map.empty, CallKeys])"
    by (simp add: templateValues_def ensure_def defs dataValue_def index_def)
  have loaded: "templateValues loadedJewel []
     = ([''password'' \<mapsto> ''old''], loadedJewel\<lparr>state := stateReady\<rparr>, [CallApply (data loadedJewel), CallKeys])"
    by (simp add: templateValues_def ensure_def defs dataValue_def index_def)
  have fails: "fst (ensure (NewJewel brokenBackend ''db'') []) \<noteq> None"
    by (simp add: ensure_def defs)
  have names: "dom [''password'' \<mapsto> []] = {''password''}"
    using templateValues_total [OF broken, THEN conjunct1] by (simp add: defs)
  have "distinct (map fst (Keys (backend (NewJewel brokenBackend ''db''))))"
    by (simp add: defs)
  with templateValues_total [OF broken, THEN conjunct2, THEN conjunct2]
  have "\<forall>(k, v) \<in> set (Keys (backend (NewJewel brokenBackend ''db''))).
          [''password'' \<mapsto> []] k = Some (dataValue (index (data (NewJewel brokenBackend ''db'')) v))"
    by blast
  then have decoded: "dataValue (index (data (NewJewel brokenBackend ''db'')) ''pwd'') = []"
    by (simp add: defs)
  from broken loaded fails names decoded show ?thesis by simp
qed

section \<open>Properties of the chart value\<close>

subsection \<open>Attribute access\<close>

text \<open>
  Claim C5, amended. \<^verbatim>\<open>Attr\<close> answers the reserved names first, from the chart's
  metadata: \<^verbatim>\<open>namespace\<close> is the namespace, \<^verbatim>\<open>name\<close> is the class name, followed by
  a dash and the suffix when a suffix is set, and \<^verbatim>\<open>__class__\<close> is the class handle,
  whatever the values mapping holds under these names. For any other name the values
  mapping is consulted and the stored value is returned wrapped; failing that, the
  method table (a hook that is present and not nil); failing that, \<^verbatim>\<open>Attr\<close> fails
  with a \<^verbatim>\<open>NoSuchAttrError\<close> whose message is the fixed text
  \<^verbatim>\<open>chart has no .NAME attribute\<close> with the attribute's name in it: it names the
  attribute and refers to the receiver by the word \<^verbatim>\<open>chart\<close> only, not by the
  chart's name.
\<close>

theorem Attr_resolution:
  "Attr S c ''namespace'' = Inr (VString (namespace c))
   \<and> Attr S c ''name'' = Inr (VString (GetName c))
   \<and> GetName c = (if chart_suffix c = [] then Name (clazz c)
                  else Name (clazz c) @ ''-'' @ chart_suffix c)
   \<and> Attr S c ''__class__'' = Inr (VClass (clazz c))
   \<and> (nm \<noteq> ''namespace'' \<and> nm \<noteq> ''name'' \<and> nm \<noteq> ''__class__'' \<longrightarrow>
        (map_of (chart_values c) nm = Some v \<longrightarrow> Attr S c nm = Inr (wrapDict S v))
        \<and> (map_of (chart_values c) nm = None \<and> hook c nm = Some m \<longrightarrow>
             Attr S c nm = Inr (VCallable m))
        \<and> (map_of (chart_values c) nm = None \<and> hook c nm = None \<longrightarrow>
             Attr S c nm = Inl (NoSuchAttrError (''chart has no .'' @ nm @ '' attribute''))))"
  by (auto simp: Attr_def hook_def GetName_def split: option.splits)

theorem Attr_resolution_witness:
  "Attr sampleStarlark parentChart ''replicas'' = Inr (VInt 3)
   \<and> Attr sampleStarlark parentChart ''apply'' = Inr (VCallable (Callable ''shop.apply''))
   \<and> Attr sampleStarlark parentChart ''delete''
       = Inl (NoSuchAttrError ''chart has no .delete attribute'')
   \<and> map_of (chart_values shadowChart) ''name'' = Some (VString ''other'')
   \<and> Attr sampleStarlark shadowChart ''name'' = Inr (VString ''shop-blue'')
   \<and> map_of (chart_values shadowChart) ''namespace'' = Some (VString ''elsewhere'')
   \<and> Attr sampleStarlark shadowChart ''namespace'' = Inr (VString ''prod'')
   \<and> map_of (chart_values shadowChart) ''__class__'' = Some (VInt 0)
   \<and> Attr sampleStarlark shadowChart ''__class__''
       = Inr (VClass \<lparr>Name = ''shop'', Version = ''2.1.0''\<rparr>)
   \<and> Attr sampleStarlark subChart ''name'' = Inr (VString ''redis'')"
proof -
  have vals: "map_of (chart_values parentChart) ''replicas'' = Some (VInt 3)"
    "map_of (chart_values parentChart) ''apply'' = None"
    "map_of (chart_values parentChart) ''delete'' = None"
    by (simp_all add: parentChart_def)
  have hooks: "hook parentChart ''apply'' = Some (Callable ''shop.apply'')"
    "hook parentChart ''delete'' = None"
    by (simp_all add: parentChart_def hook_def)
  have stored: "map_of (chart_values shadowChart) ''name'' = Some (VString ''other'')"
    "map_of (chart_values shadowChart) ''namespace'' = Some (VString ''elsewhere'')"
    "map_of (chart_values shadowChart) ''__class__'' = Some (VInt 0)"
    by (simp_all add: shadowChart_def)
  have found: "Attr sampleStarlark parentChart ''replicas'' = Inr (VInt 3)"
    using vals(1) Attr_resolution [where S = sampleStarlark and c = parentChart
        and nm = "''replicas''" and v = "VInt 3"]
    by (simp add: sampleStarlark_def)
  have hooked: "Attr sampleStarlark parentChart ''apply'' = Inr (VCallable (Callable ''shop.apply''))"
    using vals(2) hooks(1) Attr_resolution [where S = sampleStarlark and c = parentChart
        and nm = "''apply''" and m = "Callable ''shop.apply''"]
    by simp
  have unknown: "Attr sampleStarlark parentChart ''delete''
       = Inl (NoSuchAttrError ''chart has no .delete attribute'')"
    using vals(3) hooks(2) Attr_resolution [where S = sampleStarlark and c = parentChart
        and nm = "''delete''"]
    by simp
  have suffixed: "Attr sampleStarlark shadowChart ''name'' = Inr (VString ''shop-blue'')"
    using Attr_resolution [where S = sampleStarlark and c = shadowChart]
    by (simp add: shadowChart_def)
  have ns: "Attr sampleStarlark shadowChart ''namespace'' = Inr (VString ''prod'')"
    using Attr_resolution [where S = sampleStarlark and c = shadowChart, THEN conjunct1]
    by (simp add: shadowChart_def)
  have handle: "Attr sampleStarlark shadowChart ''__class__''
       = Inr (VClass \<lparr>Name = ''shop'', Version = ''2.1.0''\<rparr>)"
    using Attr_resolution [where S = sampleStarlark and c = shadowChart,
        THEN conjunct2, THEN conjunct2, THEN conjunct2, THEN conjunct1]
    by (simp add: shadowChart_def)
  have plain: "Attr sampleStarlark subChart ''name'' = Inr (VString ''redis'')"
    using Attr_resolution [where S = sampleStarlark and c = subChart]
    by (simp add: subChart_def)
  from found hooked unknown stored suffixed ns handle plain show ?thesis by simp
qed

text \<open>
  Claim C5 as it is worded has the failure name the chart. Two charts with different
  names, \<open>shop-blue\<close> and \<open>redis\<close>, fail with the very same message for an unknown
  attribute, and neither chart's class name occurs in it.
\<close>

theorem Attr_error_counterexample:
  "GetName parentChart = ''shop-blue''
   \<and> GetName subChart = ''redis''
   \<and> Attr sampleStarlark parentChart ''missing''
       = Inl (NoSuchAttrError ''chart has no .missing attribute'')
   \<and> Attr sampleStarlark subChart ''missing''
       = Inl (NoSuchAttrError ''chart has no .missing attribute'')
   \<and> \<not> occursIn ''shop'' ''chart has no .missing attribute''
   \<and> \<not> occursIn ''redis'' ''chart has no .missing attribute''"
proof -
  have names: "GetName parentChart = ''shop-blue''" "GetName subChart = ''redis''"
    by (simp_all add: GetName_def parentChart_def subChart_def)
  have parent: "Attr sampleStarlark parentChart ''missing''
       = Inl (NoSuchAttrError ''chart has no .missing attribute'')"
    by (simp add: Attr_def parentChart_def)
  have sub: "Attr sampleStarlark subChart ''missing''
       = Inl (NoSuchAttrError ''chart has no .missing attribute'')"
    by (simp add: Attr_def subChart_def)
  have absent: "\<not> occursIn ''shop'' ''chart has no .missing attribute''"
    "\<not> occursIn ''redis'' ''chart has no .missing attribute''"
    by simp_all
  from names parent sub absent show ?thesis by simp
qed

subsection \<open>Attribute assignment\<close>

text \<open>
  Claim C9. \<^verbatim>\<open>SetField\<close> never fails: for every chart, name and value it returns
  nil, and afterwards the values mapping holds the unwrapped value under that name and
  is otherwise unchanged. The name may be a reserved one. Reading \<^verbatim>\<open>name\<close>,
  \<^verbatim>\<open>namespace\<close> or \<^verbatim>\<open>__class__\<close> after any such write still yields the chart's
  identity name, its namespace and its class handle: the reserved names are enforced
  on read only.
\<close>

theorem SetField_unconditional:
  "fst (SetField S c nm v) = None
   \<and> map_of (chart_values (snd (SetField S c nm v))) = (map_of (chart_values c))(nm \<mapsto> unwrapDict S v)
   \<and> Attr S (snd (SetField S c nm v)) ''name'' = Inr (VString (GetName c))
   \<and> Attr S (snd (SetField S c nm v)) ''namespace'' = Inr (VString (namespace c))
   \<and> Attr S (snd (SetField S c nm v)) ''__class__'' = Inr (VClass (clazz c))"
  by (simp add: SetField_def Attr_def GetName_def update_conv')

theorem SetField_unconditional_witness:
  "fst (SetField sampleStarlark parentChart ''name'' (VString ''other'')) = None
   \<and> map_of (chart_values (snd (SetField sampleStarlark parentChart ''name'' (VString ''other'')))) ''name''
       = Some (VString ''other'')
   \<and> Attr sampleStarlark (snd (SetField sampleStarlark parentChart ''name'' (VString ''other''))) ''name''
       = Inr (VString ''shop-blue'')"
  using SetField_unconditional [of sampleStarlark parentChart "''name''" "VString ''other''"]
  by (simp add: sampleStarlark_def parentChart_def GetName_def)

subsection \<open>Hashing\<close>

lemma hash_string_a: "sampleStringHash ''a'' = 1627429043"
  by (simp add: sampleStringHash_def)

lemma hash_string_b: "sampleStringHash ''b'' = 1644206662"
  by (simp add: sampleStringHash_def)

text \<open>
  Claim C2 asks that \<^verbatim>\<open>Hash\<close> gives the same result for every iteration order of the
  values mapping. The loop multiplies the hash of each value by \<open>m\<close>, which grows by
  7349 with every entry visited, so the result depends on the position at which a value
  is met. The two charts below hold the same mapping, \<open>a\<close> to 1 and \<open>b\<close> to 2, and
  differ only in the order in which \<^verbatim>\<open>range\<close> yields the entries; their hashes differ.
\<close>

theorem Hash_depends_on_order:
  "map_of (chart_values chartAB) = map_of (chart_values chartBA)
   \<and> Hash sampleStarlark chartAB = HashOk 83920631
   \<and> Hash sampleStarlark chartBA = HashOk 83896618
   \<and> Hash sampleStarlark chartAB \<noteq> Hash sampleStarlark chartBA"
proof -
  have same: "map_of (chart_values chartAB) = map_of (chart_values chartBA)"
    by (auto simp: chartAB_def chartBA_def fun_eq_iff)
  have ab: "Hash sampleStarlark chartAB = HashOk 83920631"
    by (simp add: Hash_def chartAB_def sampleStarlark_def hash_string_a hash_string_b)
  have ba: "Hash sampleStarlark chartBA = HashOk 83896618"
    by (simp add: Hash_def chartBA_def sampleStarlark_def hash_string_a hash_string_b)
  from same ab ba show ?thesis by simp
qed

text \<open>
  A hash is returned only when every value of the mapping has one: with an unhashable
  value among them, \<^verbatim>\<open>Hash\<close> ends in an error or in a panic.
\<close>

lemma hashEntries_ok_all:
  "hashEntries S vs x m = HashOk h \<Longrightarrow> (k, v) \<in> set vs \<Longrightarrow> \<exists>y. valueHash S v = HashOk y"
  by (induction vs arbitrary: x m) (auto split: hres.splits)

text \<open>
  Claim C8 asks that \<^verbatim>\<open>Hash\<close> returns an error, and does not abort in another way,
  when the mapping holds an unhashable value such as a jewel. \<^verbatim>\<open>jewel.Hash\<close> is the
  stub \<^verbatim>\<open>panic("implement me")\<close>: a chart whose loop meets a jewel first panics.
\<close>

theorem Hash_jewel_panics:
  "Hash S (Chart cl ((k, VJewel j) # rest) ms d ns sf) = HashPanic ''implement me''"
  by (simp add: Hash_def)

section \<open>The order of apply and delete\<close>

subsection \<open>The loops carry out a plan, stopping at the first failure\<close>

lemma failfast_None:
  "failfast E tr plan = (None, evs) \<Longrightarrow> evs = plan"
  by (induction plan arbitrary: tr evs) (auto split: option.splits prod.splits)

lemma failfast_append:
  "failfast E tr (p @ q) =
     (case failfast E tr p of
        (Some err, evs) \<Rightarrow> (Some err, evs)
      | (None, evs) \<Rightarrow> (case failfast E (tr @ p) q of (r, evs') \<Rightarrow> (r, p @ evs')))"
proof (induction p arbitrary: tr)
  case Nil
  show ?case by (simp split: prod.splits)
next
  case (Cons e p)
  show ?case
  proof (cases "outcome E tr e")
    case None
    then show ?thesis
      by (simp add: Cons.IH split: prod.splits option.splits)
  next
    case (Some err)
    then show ?thesis by simp
  qed
qed

lemma failfast_props:
  "failfast E tr plan = (r, evs) \<Longrightarrow>
   prefix evs plan
   \<and> (r = None \<longrightarrow> evs = plan \<and> allOk E tr plan)
   \<and> (\<forall>err. r = Some err \<longrightarrow>
         (\<exists>pre e. evs = pre @ [e] \<and> allOk E tr pre \<and> outcome E (tr @ pre) e = Some err))"
proof (induction plan arbitrary: tr r evs)
  case Nil
  then show ?case by simp
next
  case (Cons e plan)
  show ?case
  proof (cases "outcome E tr e")
    case (Some err)
    with Cons.prems have "r = Some err" "evs = [e]" by simp_all
    moreover have "[e] = [] @ [e] \<and> allOk E tr [] \<and> outcome E (tr @ []) e = Some err"
      using Some by simp
    ultimately show ?thesis by (metis option.distinct(1) option.inject prefix_order.refl prefix_code(1) Cons_prefix_Cons)
  next
    case None
    obtain r' evs' where rest: "failfast E (tr @ [e]) plan = (r', evs')"
      by (cases "failfast E (tr @ [e]) plan")
    with None Cons.prems have r: "r = r'" and evs: "evs = e # evs'" by simp_all
    note ih = Cons.IH [OF rest]
    have "prefix evs (e # plan)" using ih by (simp add: evs)
    moreover have "evs = e # plan \<and> allOk E tr (e # plan)" if "r = None"
      using that ih None by (simp add: r evs)
    moreover have "\<exists>pre e'. evs = pre @ [e'] \<and> allOk E tr pre \<and> outcome E (tr @ pre) e' = Some err"
      if "r = Some err" for err
    proof -
      from that ih obtain pre e' where
        "evs' = pre @ [e']" "allOk E (tr @ [e]) pre" "outcome E ((tr @ [e]) @ pre) e' = Some err"
        unfolding r by blast
      then have "evs = (e # pre) @ [e'] \<and> allOk E tr (e # pre) \<and> outcome E (tr @ (e # pre)) e' = Some err"
        using None by (simp add: evs)
      then show ?thesis by blast
    qed
    ultimately show ?thesis by blast
  qed
qed

lemma eachSubChart_loop_failfast:
  assumes block: "\<And>s tr. block s tr = (outcome E tr (ev s), tr @ [ev s])"
  shows "eachSubChart_loop vs block tr =
     (case failfast E tr (map ev (subChartsOf vs)) of (r, evs) \<Rightarrow> (r, tr @ evs))"
proof (induction vs arbitrary: tr)
  case Nil
  show ?case by simp
next
  case (Cons entry vs)
  obtain key v where entry: "entry = (key, v)" by (cases entry)
  show ?case
  proof (cases v)
    case (VChart s)
    have here: "block s tr = (outcome E tr (ev s), tr @ [ev s])" by (rule block)
    show ?thesis
      by (simp add: entry VChart here Cons.IH split: option.splits prod.splits)
  qed (simp_all add: entry Cons.IH)
qed

lemma eachVault_loop_failfast:
  assumes block: "\<And>v tr. block v tr = (outcome E tr (ev v), tr @ [ev v])"
  shows "eachVault_loop vs block tr =
     (case failfast E tr (map ev (vaultsOf vs)) of (r, evs) \<Rightarrow> (r, tr @ evs))"
proof (induction vs arbitrary: tr)
  case Nil
  show ?case by simp
next
  case (Cons entry vs)
  obtain key v where entry: "entry = (key, v)" by (cases entry)
  show ?case
  proof (cases v)
    case (VVault x)
    have here: "block x tr = (outcome E tr (ev x), tr @ [ev x])" by (rule block)
    show ?thesis
      by (simp add: entry VVault here Cons.IH split: option.splits prod.splits)
  qed (simp_all add: entry Cons.IH)
qed

lemma callHook_outcome:
  "callHook E nm k s tr = (outcome E tr (EvCall (hook s nm) k), tr @ [EvCall (hook s nm) k])"
  by (simp add: callHook_def)

lemma vault_read_outcome:
  "vault_read E k v tr = (outcome E tr (EvVaultRead v k), tr @ [EvVaultRead v k])"
  by (simp add: vault_read_def)

lemma vault_delete_outcome:
  "vault_delete E v tr = (outcome E tr (EvVaultDelete v), tr @ [EvVaultDelete v])"
  by (simp add: vault_delete_def)

lemma eachSubChart_hooks:
  "eachSubChart c (callHook E nm k) tr =
     (case failfast E tr (hookCalls nm c k) of (r, evs) \<Rightarrow> (r, tr @ evs))"
  unfolding eachSubChart_def hookCalls_def subCharts_def
  by (rule eachSubChart_loop_failfast) (rule callHook_outcome)

lemma eachVault_reads:
  "eachVault c (vault_read E k) tr =
     (case failfast E tr (map (\<lambda>v. EvVaultRead v k) (vaults c)) of (r, evs) \<Rightarrow> (r, tr @ evs))"
  unfolding eachVault_def vaults_def
  by (rule eachVault_loop_failfast) (rule vault_read_outcome)

lemma eachVault_deletes:
  "eachVault c (vault_delete E) tr =
     (case failfast E tr (map EvVaultDelete (vaults c)) of (r, evs) \<Rightarrow> (r, tr @ evs))"
  unfolding eachVault_def vaults_def
  by (rule eachVault_loop_failfast) (rule vault_delete_outcome)

lemma applyLocal_failfast:
  "applyLocal E c k opts glob tr =
     (case failfast E tr (applyLocal_plan E c k opts glob tr) of (r, evs) \<Rightarrow> (r, tr @ evs))"
proof (cases "failfast E tr (map (\<lambda>v. EvVaultRead v k) (vaults c))")
  case (Pair r evs)
  show ?thesis
  proof (cases r)
    case None
    with Pair have evs: "evs = map (\<lambda>v. EvVaultRead v k) (vaults c)"
      by (simp add: failfast_None)
    show ?thesis
      using Pair None
      by (simp add: applyLocal_def applyLocal_plan_def eachVault_reads failfast_append evs Let_def
          split: option.splits)
  next
    case (Some err)
    with Pair show ?thesis
      by (simp add: applyLocal_def applyLocal_plan_def eachVault_reads failfast_append)
  qed
qed

lemma apply_chart_failfast:
  "apply_chart E c k tr =
     (case failfast E tr (apply_plan E c k tr) of (r, evs) \<Rightarrow> (r, tr @ evs))"
proof (cases "failfast E tr (hookCalls ''apply'' c k)")
  case (Pair r evs)
  show ?thesis
  proof (cases r)
    case None
    with Pair have evs: "evs = hookCalls ''apply'' c k"
      by (simp add: failfast_None)
    show ?thesis
      using Pair None
      by (simp add: apply_chart_def apply_plan_def eachSubChart_hooks failfast_append evs
          applyLocal_failfast split: prod.splits)
  next
    case (Some err)
    with Pair show ?thesis
      by (simp add: apply_chart_def apply_plan_def eachSubChart_hooks failfast_append)
  qed
qed

lemma deleteLocal_failfast:
  "deleteLocal E c k opts glob tr =
     (case failfast E tr (deleteLocal_plan E c k opts glob tr) of (r, evs) \<Rightarrow> (r, tr @ evs))"
  by (simp add: deleteLocal_def deleteLocal_plan_def eachVault_deletes Let_def
      split: option.splits prod.splits)

lemma delete_chart_failfast:
  "delete_chart E c k tr =
     (case failfast E tr (delete_plan E c k tr) of (r, evs) \<Rightarrow> (r, tr @ evs))"
proof (cases "failfast E tr (hookCalls ''delete'' c k)")
  case (Pair r evs)
  show ?thesis
  proof (cases r)
    case None
    with Pair have evs: "evs = hookCalls ''delete'' c k"
      by (simp add: failfast_None)
    show ?thesis
      using Pair None
      by (simp add: delete_chart_def delete_plan_def eachSubChart_hooks failfast_append evs
          deleteLocal_failfast split: prod.splits)
  next
    case (Some err)
    with Pair show ?thesis
      by (simp add: delete_chart_def delete_plan_def eachSubChart_hooks failfast_append)
  qed
qed

lemma failfast_run:
  assumes "(case failfast E tr plan of (r, evs) \<Rightarrow> (r, tr @ evs)) = (r, tr')"
  shows "\<exists>evs. tr' = tr @ evs \<and> prefix evs plan
           \<and> (r = None \<longrightarrow> evs = plan \<and> allOk E tr evs)
           \<and> (\<forall>err. r = Some err \<longrightarrow>
                 (\<exists>pre e. evs = pre @ [e] \<and> allOk E tr pre \<and> outcome E (tr @ pre) e = Some err))"
proof -
  obtain evs where run: "failfast E tr plan = (r, evs)" and tr': "tr' = tr @ evs"
    using assms by (auto split: prod.splits)
  from failfast_props [OF run] tr' show ?thesis by blast
qed

text \<open>The sample chart, for running apply and delete on it.\<close>

lemma parentChart_values:
  "chart_values parentChart =
     [(''replicas'', VInt 3), (''cache'', VChart subChart), (''secret'', VVault (ManagedSecret ''db''))]"
  by (simp add: parentChart_def)

lemma subChart_hooks:
  "hook subChart ''apply'' = Some (Callable ''redis.apply'')"
  "hook subChart ''delete'' = Some (Callable ''redis.delete'')"
  by (simp_all add: subChart_def hook_def)

subsection \<open>Apply\<close>

text \<open>
  Claim C7. The calls that \<^verbatim>\<open>apply\<close> adds to the trace are a prefix of the plan
  \<open>apply_plan\<close>: the \<^verbatim>\<open>apply\<close> script hook of every sub-chart, called with the same
  client, then the local apply. The calls of \<^verbatim>\<open>applyLocal\<close> are a prefix of
  \<open>applyLocal_plan\<close>: every vault of the chart reads, then the templates are rendered,
  then the decoded manifests are submitted to the client's \<^verbatim>\<open>Apply\<close> with
  \<open>Namespaced\<close> false, whatever the options passed in. When the result is nil the
  whole plan was carried out and every call succeeded. When the result is an error, it
  is the error of the last call made, every call before it succeeded, and no later
  call of the plan was made.
\<close>

theorem apply_order:
  "(apply_chart E c k tr = (r, tr') \<longrightarrow>
      (\<exists>evs. tr' = tr @ evs \<and> prefix evs (apply_plan E c k tr)
         \<and> (r = None \<longrightarrow> evs = apply_plan E c k tr \<and> allOk E tr evs)
         \<and> (\<forall>err. r = Some err \<longrightarrow>
               (\<exists>pre e. evs = pre @ [e] \<and> allOk E tr pre \<and> outcome E (tr @ pre) e = Some err))))
   \<and> (applyLocal E c k opts glob tr = (r, tr') \<longrightarrow>
      (\<exists>evs. tr' = tr @ evs \<and> prefix evs (applyLocal_plan E c k opts glob tr)
         \<and> (r = None \<longrightarrow> evs = applyLocal_plan E c k opts glob tr \<and> allOk E tr evs)
         \<and> (\<forall>err. r = Some err \<longrightarrow>
               (\<exists>pre e. evs = pre @ [e] \<and> allOk E tr pre \<and> outcome E (tr @ pre) e = Some err))))"
proof (intro conjI impI)
  assume "apply_chart E c k tr = (r, tr')"
  then have "(case failfast E tr (apply_plan E c k tr) of (r, evs) \<Rightarrow> (r, tr @ evs)) = (r, tr')"
    by (simp add: apply_chart_failfast)
  then show "\<exists>evs. tr' = tr @ evs \<and> prefix evs (apply_plan E c k tr)
         \<and> (r = None \<longrightarrow> evs = apply_plan E c k tr \<and> allOk E tr evs)
         \<and> (\<forall>err. r = Some err \<longrightarrow>
               (\<exists>pre e. evs = pre @ [e] \<and> allOk E tr pre \<and> outcome E (tr @ pre) e = Some err))"
    by (rule failfast_run)
next
  assume "applyLocal E c k opts glob tr = (r, tr')"
  then have "(case failfast E tr (applyLocal_plan E c k opts glob tr) of (r, evs) \<Rightarrow> (r, tr @ evs))
      = (r, tr')"
    by (simp add: applyLocal_failfast)
  then show "\<exists>evs. tr' = tr @ evs \<and> prefix evs (applyLocal_plan E c k opts glob tr)
         \<and> (r = None \<longrightarrow> evs = applyLocal_plan E c k opts glob tr \<and> allOk E tr evs)
         \<and> (\<forall>err. r = Some err \<longrightarrow>
               (\<exists>pre e. evs = pre @ [e] \<and> allOk E tr pre \<and> outcome E (tr @ pre) e = Some err))"
    by (rule failfast_run)
qed

theorem apply_order_witness:
  "apply_chart calmEnv parentChart cluster []
     = (None, [EvCall (Some (Callable ''redis.apply'')) cluster,
               EvVaultRead (ManagedSecret ''db'') cluster,
               EvTemplate parentChart [] True,
               EvK8sApply cluster (ObjectStream (Stream ''manifests'')) \<lparr>Namespaced = False\<rparr>])
   \<and> apply_plan calmEnv parentChart cluster []
     = [EvCall (Some (Callable ''redis.apply'')) cluster,
        EvVaultRead (ManagedSecret ''db'') cluster,
        EvTemplate parentChart [] True,
        EvK8sApply cluster (ObjectStream (Stream ''manifests'')) \<lparr>Namespaced = False\<rparr>]
   \<and> apply_chart failingHookEnv parentChart cluster []
     = (Some (GoError ''hook failed''), [EvCall (Some (Callable ''redis.apply'')) cluster])
   \<and> outcome failingHookEnv [] (EvCall (Some (Callable ''redis.apply'')) cluster)
     = Some (GoError ''hook failed'')
   \<and> applyLocal calmEnv subChart cluster \<lparr>Namespaced = True\<rparr> ''*.yaml'' []
     = (None, [EvTemplate subChart ''*.yaml'' True,
               EvK8sApply cluster (ObjectStream (Stream ''manifests'')) \<lparr>Namespaced = False\<rparr>])
   \<and> applyLocal_plan calmEnv subChart cluster \<lparr>Namespaced = True\<rparr> ''*.yaml'' []
     = [EvTemplate subChart ''*.yaml'' True,
        EvK8sApply cluster (ObjectStream (Stream ''manifests'')) \<lparr>Namespaced = False\<rparr>]"
proof -
  have calm: "apply_chart calmEnv parentChart cluster []
     = (None, [EvCall (Some (Callable ''redis.apply'')) cluster,
               EvVaultRead (ManagedSecret ''db'') cluster,
               EvTemplate parentChart [] True,
               EvK8sApply cluster (ObjectStream (Stream ''manifests'')) \<lparr>Namespaced = False\<rparr>])"
    by (simp add: apply_chart_def applyLocal_def eachSubChart_def eachVault_def parentChart_values
        subChart_hooks callHook_def vault_read_def calmEnv_def Let_def)
  have plan: "apply_plan calmEnv parentChart cluster []
     = [EvCall (Some (Callable ''redis.apply'')) cluster,
        EvVaultRead (ManagedSecret ''db'') cluster,
        EvTemplate parentChart [] True,
        EvK8sApply cluster (ObjectStream (Stream ''manifests'')) \<lparr>Namespaced = False\<rparr>]"
    using apply_order [where E = calmEnv and c = parentChart and k = cluster and tr = "[]"
        and r = None, THEN conjunct1, rule_format, OF calm]
    by auto
  have failing: "apply_chart failingHookEnv parentChart cluster []
     = (Some (GoError ''hook failed''), [EvCall (Some (Callable ''redis.apply'')) cluster])"
    by (simp add: apply_chart_def eachSubChart_def parentChart_values subChart_hooks callHook_def
        failingHookEnv_def calmEnv_def)
  have last: "outcome failingHookEnv [] (EvCall (Some (Callable ''redis.apply'')) cluster)
     = Some (GoError ''hook failed'')"
    using apply_order [where E = failingHookEnv and c = parentChart and k = cluster and tr = "[]"
        and r = "Some (GoError ''hook failed'')", THEN conjunct1, rule_format, OF failing]
    by auto
  have local: "applyLocal calmEnv subChart cluster \<lparr>Namespaced = True\<rparr> ''*.yaml'' []
     = (None, [EvTemplate subChart ''*.yaml'' True,
               EvK8sApply cluster (ObjectStream (Stream ''manifests'')) \<lparr>Namespaced = False\<rparr>])"
    by (simp add: applyLocal_def eachVault_def subChart_def calmEnv_def Let_def)
  have local_plan: "applyLocal_plan calmEnv subChart cluster \<lparr>Namespaced = True\<rparr> ''*.yaml'' []
     = [EvTemplate subChart ''*.yaml'' True,
        EvK8sApply cluster (ObjectStream (Stream ''manifests'')) \<lparr>Namespaced = False\<rparr>]"
    using apply_order [where E = calmEnv and c = subChart and k = cluster and tr = "[]"
        and r = None and opts = "\<lparr>Namespaced = True\<rparr>" and glob = "''*.yaml''",
        THEN conjunct2, rule_format, OF local]
    by auto
  from calm plan failing last local local_plan show ?thesis by simp
qed

subsection \<open>Delete\<close>

text \<open>
  Claim C1, amended. The calls that \<^verbatim>\<open>delete\<close> adds to the trace are a prefix of the
  plan \<open>delete_plan\<close>: first the \<^verbatim>\<open>delete\<close> script hook of every sub-chart, then the
  local delete. The calls of \<^verbatim>\<open>deleteLocal\<close> are a prefix of \<open>deleteLocal_plan\<close>: the
  templates are rendered, the removal of the chart's own manifests is submitted to the
  client's \<^verbatim>\<open>Delete\<close> with \<open>Namespaced\<close> false, and only then does every vault of
  the chart delete. A call that fails is the last one made, so no vault deletes unless
  the removal has succeeded, and the local removal is not submitted unless every
  sub-chart hook has succeeded.
\<close>

theorem delete_order:
  "(delete_chart E c k tr = (r, tr') \<longrightarrow>
      (\<exists>evs. tr' = tr @ evs \<and> prefix evs (delete_plan E c k tr)
         \<and> (r = None \<longrightarrow> evs = delete_plan E c k tr \<and> allOk E tr evs)
         \<and> (\<forall>err. r = Some err \<longrightarrow>
               (\<exists>pre e. evs = pre @ [e] \<and> allOk E tr pre \<and> outcome E (tr @ pre) e = Some err))))
   \<and> (deleteLocal E c k opts glob tr = (r, tr') \<longrightarrow>
      (\<exists>evs. tr' = tr @ evs \<and> prefix evs (deleteLocal_plan E c k opts glob tr)
         \<and> (r = None \<longrightarrow> evs = deleteLocal_plan E c k opts glob tr \<and> allOk E tr evs)
         \<and> (\<forall>err. r = Some err \<longrightarrow>
               (\<exists>pre e. evs = pre @ [e] \<and> allOk E tr pre \<and> outcome E (tr @ pre) e = Some err))))"
proof (intro conjI impI)
  assume "delete_chart E c k tr = (r, tr')"
  then have "(case failfast E tr (delete_plan E c k tr) of (r, evs) \<Rightarrow> (r, tr @ evs)) = (r, tr')"
    by (simp add: delete_chart_failfast)
  then show "\<exists>evs. tr' = tr @ evs \<and> prefix evs (delete_plan E c k tr)
         \<and> (r = None \<longrightarrow> evs = delete_plan E c k tr \<and> allOk E tr evs)
         \<and> (\<forall>err. r = Some err \<longrightarrow>
               (\<exists>pre e. evs = pre @ [e] \<and> allOk E tr pre \<and> outcome E (tr @ pre) e = Some err))"
    by (rule failfast_run)
next
  assume "deleteLocal E c k opts glob tr = (r, tr')"
  then have "(case failfast E tr (deleteLocal_plan E c k opts glob tr) of (r, evs) \<Rightarrow> (r, tr @ evs))
      = (r, tr')"
    by (simp add: deleteLocal_failfast)
  then show "\<exists>evs. tr' = tr @ evs \<and> prefix evs (deleteLocal_plan E c k opts glob tr)
         \<and> (r = None \<longrightarrow> evs = deleteLocal_plan E c k opts glob tr \<and> allOk E tr evs)
         \<and> (\<forall>err. r = Some err \<longrightarrow>
               (\<exists>pre e. evs = pre @ [e] \<and> allOk E tr pre \<and> outcome E (tr @ pre) e = Some err))"
    by (rule failfast_run)
qed

theorem delete_order_witness:
  "delete_chart calmEnv parentChart cluster []
     = (None, [EvCall (Some (Callable ''redis.delete'')) cluster,
               EvTemplate parentChart [] False,
               EvK8sDelete cluster (ObjectStream (Stream ''manifests'')) \<lparr>Namespaced = False\<rparr>,
               EvVaultDelete (ManagedSecret ''db'')])
   \<and> delete_plan calmEnv parentChart cluster []
     = [EvCall (Some (Callable ''redis.delete'')) cluster,
        EvTemplate parentChart [] False,
        EvK8sDelete cluster (ObjectStream (Stream ''manifests'')) \<lparr>Namespaced = False\<rparr>,
        EvVaultDelete (ManagedSecret ''db'')]
   \<and> delete_chart stormyEnv parentChart cluster []
     = (Some (GoError ''refused''),
        [EvCall (Some (Callable ''redis.delete'')) cluster,
         EvTemplate parentChart [] False,
         EvK8sDelete cluster (ObjectStream (Stream ''manifests'')) \<lparr>Namespaced = False\<rparr>])
   \<and> prefix [EvCall (Some (Callable ''redis.delete'')) cluster,
         EvTemplate parentChart [] False,
         EvK8sDelete cluster (ObjectStream (Stream ''manifests'')) \<lparr>Namespaced = False\<rparr>]
        (delete_plan stormyEnv parentChart cluster [])
   \<and> deleteLocal calmEnv parentChart cluster \<lparr>Namespaced = True\<rparr> ''*.yaml'' []
     = (None, [EvTemplate parentChart ''*.yaml'' False,
               EvK8sDelete cluster (ObjectStream (Stream ''manifests'')) \<lparr>Namespaced = False\<rparr>,
               EvVaultDelete (ManagedSecret ''db'')])
   \<and> deleteLocal_plan calmEnv parentChart cluster \<lparr>Namespaced = True\<rparr> ''*.yaml'' []
     = [EvTemplate parentChart ''*.yaml'' False,
        EvK8sDelete cluster (ObjectStream (Stream ''manifests'')) \<lparr>Namespaced = False\<rparr>,
        EvVaultDelete (ManagedSecret ''db'')]"
proof -
  have calm: "delete_chart calmEnv parentChart cluster []
     = (None, [EvCall (Some (Callable ''redis.delete'')) cluster,
               EvTemplate parentChart [] False,
               EvK8sDelete cluster (ObjectStream (Stream ''manifests'')) \<lparr>Namespaced = False\<rparr>,
               EvVaultDelete (ManagedSecret ''db'')])"
    by (simp add: delete_chart_def deleteLocal_def eachSubChart_def eachVault_def parentChart_values
        subChart_hooks callHook_def vault_delete_def calmEnv_def Let_def)
  have plan: "delete_plan calmEnv parentChart cluster []
     = [EvCall (Some (Callable ''redis.delete'')) cluster,
        EvTemplate parentChart [] False,
        EvK8sDelete cluster (ObjectStream (Stream ''manifests'')) \<lparr>Namespaced = False\<rparr>,
        EvVaultDelete (ManagedSecret ''db'')]"
    using delete_order [where E = calmEnv and c = parentChart and k = cluster and tr = "[]"
        and r = None, THEN conjunct1, rule_format, OF calm]
    by auto
  have stormy: "delete_chart stormyEnv parentChart cluster []
     = (Some (GoError ''refused''),
        [EvCall (Some (Callable ''redis.delete'')) cluster,
         EvTemplate parentChart [] False,
         EvK8sDelete cluster (ObjectStream (Stream ''manifests'')) \<lparr>Namespaced = False\<rparr>])"
    by (simp add: delete_chart_def deleteLocal_def eachSubChart_def parentChart_values
        subChart_hooks callHook_def stormyEnv_def calmEnv_def Let_def)
  have cut: "prefix [EvCall (Some (Callable ''redis.delete'')) cluster,
         EvTemplate parentChart [] False,
         EvK8sDelete cluster (ObjectStream (Stream ''manifests'')) \<lparr>Namespaced = False\<rparr>]
        (delete_plan stormyEnv parentChart cluster [])"
    using delete_order [where E = stormyEnv and c = parentChart and k = cluster and tr = "[]"
        and r = "Some (GoError ''refused'')", THEN conjunct1, rule_format, OF stormy]
    by auto
  have local: "deleteLocal calmEnv parentChart cluster \<lparr>Namespaced = True\<rparr> ''*.yaml'' []
     = (None, [EvTemplate parentChart ''*.yaml'' False,
               EvK8sDelete cluster (ObjectStream (Stream ''manifests'')) \<lparr>Namespaced = False\<rparr>,
               EvVaultDelete (ManagedSecret ''db'')])"
    by (simp add: deleteLocal_def eachVault_def parentChart_values vault_delete_def calmEnv_def Let_def)
  have local_plan: "deleteLocal_plan calmEnv parentChart cluster \<lparr>Namespaced = True\<rparr> ''*.yaml'' []
     = [EvTemplate parentChart ''*.yaml'' False,
        EvK8sDelete cluster (ObjectStream (Stream ''manifests'')) \<lparr>Namespaced = False\<rparr>,
        EvVaultDelete (ManagedSecret ''db'')]"
    using delete_order [where E = calmEnv and c = parentChart and k = cluster and tr = "[]"
        and r = None and opts = "\<lparr>Namespaced = True\<rparr>" and glob = "''*.yaml''",
        THEN conjunct2, rule_format, OF local]
    by auto
  from calm plan stormy cut local local_plan show ?thesis by simp
qed

text \<open>
  Claim C1 as it is worded has the chart's own manifest removal submitted before the
  delete hooks of the sub-charts are called. On the sample chart, with every call
  succeeding, the hook of the sub-chart is the first call made and the removal is not
  ahead of it.
\<close>

theorem delete_order_counterexample:
  "delete_chart calmEnv parentChart cluster []
     = (None, [EvCall (Some (Callable ''redis.delete'')) cluster,
               EvTemplate parentChart [] False,
               EvK8sDelete cluster (ObjectStream (Stream ''manifests'')) \<lparr>Namespaced = False\<rparr>,
               EvVaultDelete (ManagedSecret ''db'')])
   \<and> \<not> occursBefore
         (EvK8sDelete cluster (ObjectStream (Stream ''manifests'')) \<lparr>Namespaced = False\<rparr>)
         (EvCall (Some (Callable ''redis.delete'')) cluster)
         (snd (delete_chart calmEnv parentChart cluster []))"
proof -
  have run: "delete_chart calmEnv parentChart cluster []
     = (None, [EvCall (Some (Callable ''redis.delete'')) cluster,
               EvTemplate parentChart [] False,
               EvK8sDelete cluster (ObjectStream (Stream ''manifests'')) \<lparr>Namespaced = False\<rparr>,
               EvVaultDelete (ManagedSecret ''db'')])"
    by (simp add: delete_chart_def deleteLocal_def eachSubChart_def eachVault_def parentChart_values
        subChart_hooks callHook_def vault_delete_def calmEnv_def Let_def)
  show ?thesis unfolding run by simp
qed

end
